theory Spec2Isabelle
  imports Complex_Main "HOL-Library.Log_Nat" "HOL-Library.Sublist"
begin

section \<open>Python values used by the program\<close>

text \<open>
  The exceptions that the modelled statements can raise.  Every handler of the source is
  \<^verbatim>\<open>except Exception\<close> or \<^verbatim>\<open>except sqlite3.Error\<close>, so the model only needs to
  know which statement raised, not how the exception is printed.
\<close>

datatype exc =
    TypeError | ValueError | OverflowError | AttributeError | ZeroDivisionError
  | OSError | JSONDecodeError | SqliteError | UnboundLocalError

text \<open>
  A Python \<^verbatim>\<open>float\<close> is an IEEE double: a finite value (a rational number), an infinity or
  a NaN.  Every finite double is a rational, so statements proved for all \<open>Finite q\<close> hold
  for all finite doubles.
\<close>

datatype pyfloat = Finite rat | PInf | NInf | NaN

text \<open>What \<^verbatim>\<open>json.load\<close> can return.  A parsed object is a dict (its keys are distinct); it
  is kept as an association list that is read with \<open>map_of\<close>.\<close>

datatype jval =
    JNull
  | JBool bool
  | JInt int
  | JFloat pyfloat
  | JStr string
  | JList "jval list"
  | JObj "(string \<times> jval) list"

text \<open>Python truthiness, as used by \<^verbatim>\<open>x or default\<close>.\<close>

fun truthy :: "jval \<Rightarrow> bool" where
  "truthy JNull = False"
| "truthy (JBool b) = b"
| "truthy (JInt n) = (n \<noteq> 0)"
| "truthy (JFloat f) = (f \<noteq> Finite 0)"
| "truthy (JStr s) = (s \<noteq> [])"
| "truthy (JList xs) = (xs \<noteq> [])"
| "truthy (JObj kvs) = (kvs \<noteq> [])"

text \<open>\<^verbatim>\<open>key in data\<close>: key membership for a dict, element membership for a list, substring
  test for a string, \<^verbatim>\<open>TypeError\<close> for everything else.\<close>

fun py_in :: "string \<Rightarrow> jval \<Rightarrow> exc + bool" where
  "py_in k (JObj kvs) = Inr (map_of kvs k \<noteq> None)"
| "py_in k (JList xs) = Inr (List.member xs (JStr k))"
| "py_in k (JStr s) = Inr (sublist k s)"
| "py_in k JNull = Inl TypeError"
| "py_in k (JBool b) = Inl TypeError"
| "py_in k (JInt n) = Inl TypeError"
| "py_in k (JFloat f) = Inl TypeError"

text \<open>\<^verbatim>\<open>data.get(key)\<close>: only a dict has the method.\<close>

fun py_get :: "jval \<Rightarrow> string \<Rightarrow> exc + jval" where
  "py_get (JObj kvs) k = Inr (case map_of kvs k of None \<Rightarrow> JNull | Some v \<Rightarrow> v)"
| "py_get JNull k = Inl AttributeError"
| "py_get (JBool b) k = Inl AttributeError"
| "py_get (JInt n) k = Inl AttributeError"
| "py_get (JFloat f) k = Inl AttributeError"
| "py_get (JStr s) k = Inl AttributeError"
| "py_get (JList xs) k = Inl AttributeError"

text \<open>
  \<^verbatim>\<open>float(n)\<close> for a Python int: the nearest double, ties to the even mantissa
  (53 significant bits), and \<^verbatim>\<open>OverflowError\<close> when the rounded value reaches \<open>2 ^ 1024\<close>.
\<close>

definition round53 :: "int \<Rightarrow> int" where
  "round53 n =
     (let a = \<bar>n\<bar>; e = bitlen a - 53 in
      if e \<le> 0 then n
      else let p = 2 ^ nat e; q = a div p; r = a mod p; h = p div 2;
               q' = (if h < r \<or> (r = h \<and> odd q) then q + 1 else q)
           in sgn n * (q' * p))"

definition float_of_int :: "int \<Rightarrow> exc + pyfloat" where
  "float_of_int n =
     (let r = round53 n in
      if 2 ^ 1024 \<le> \<bar>r\<bar> then Inl OverflowError else Inr (Finite (of_int r)))"

text \<open>
  The parts of the Python runtime that are not modelled bit by bit are parameters:
  \<^item> \<open>str_to_float s\<close> is \<^verbatim>\<open>float(s)\<close> for a string (\<open>None\<close>: \<^verbatim>\<open>ValueError\<close>);
  \<^item> \<open>float_add x y\<close> is the double \<^verbatim>\<open>x + y\<close>;
  \<^item> \<open>td_total_seconds us\<close> is \<^verbatim>\<open>timedelta(microseconds=us).total_seconds()\<close>;
  \<^item> \<open>strptime s\<close> is \<^verbatim>\<open>datetime.strptime(s, '%Y-%m-%dT%H:%M:%S')\<close> (\<open>None\<close>:
    \<^verbatim>\<open>ValueError\<close>);
  \<^item> \<open>isoformat t\<close> is \<^verbatim>\<open>t.isoformat()\<close>.
  A \<^verbatim>\<open>datetime\<close> is the number of microseconds since 0001-01-01T00:00:00, a
  \<^verbatim>\<open>timedelta\<close> a number of microseconds.  The theorems below hold for every choice of
  the parameters.
\<close>

record pyrt =
  str_to_float :: "string \<Rightarrow> pyfloat option"
  float_add :: "rat \<Rightarrow> rat \<Rightarrow> rat"
  td_total_seconds :: "int \<Rightarrow> rat"
  strptime :: "string \<Rightarrow> int option"
  isoformat :: "int \<Rightarrow> string"

text \<open>\<^verbatim>\<open>float(x)\<close>.\<close>

fun py_float :: "pyrt \<Rightarrow> jval \<Rightarrow> exc + pyfloat" where
  "py_float rt (JInt n) = float_of_int n"
| "py_float rt (JFloat f) = Inr f"
| "py_float rt (JBool b) = Inr (Finite (if b then 1 else 0))"
| "py_float rt (JStr s) =
     (case str_to_float rt s of None \<Rightarrow> Inl ValueError | Some f \<Rightarrow> Inr f)"
| "py_float rt JNull = Inl TypeError"
| "py_float rt (JList xs) = Inl TypeError"
| "py_float rt (JObj kvs) = Inl TypeError"

text \<open>\<^verbatim>\<open>int(q)\<close> for a finite double: truncation towards zero.\<close>

definition trunc :: "rat \<Rightarrow> int" where
  "trunc q = (if 0 \<le> q then \<lfloor>q\<rfloor> else \<lceil>q\<rceil>)"

text \<open>\<^verbatim>\<open>int(f)\<close> for a float.\<close>

fun py_int :: "pyfloat \<Rightarrow> exc + int" where
  "py_int (Finite q) = Inr (trunc q)"
| "py_int PInf = Inl OverflowError"
| "py_int NInf = Inl OverflowError"
| "py_int NaN = Inl ValueError"

text \<open>\<^verbatim>\<open>int(float(v or 0))\<close>.\<close>

definition int_float_or0 :: "pyrt \<Rightarrow> jval \<Rightarrow> exc + int" where
  "int_float_or0 rt v =
     (case py_float rt (if truthy v then v else JInt 0) of
        Inl e \<Rightarrow> Inl e
      | Inr f \<Rightarrow> py_int f)"

section \<open>The persistent study-time counter\<close>

text \<open>
  The file \<^verbatim>\<open>study_time.json\<close>: missing, present but not readable (\<^verbatim>\<open>open\<close> raises),
  present with a content that \<^verbatim>\<open>json.load\<close> rejects, or present with a JSON value.
  \<open>wmode\<close> says what a write does: it succeeds, \<^verbatim>\<open>open(..., 'w')\<close> raises and the file
  is left as it was, or the file is opened (and so truncated) and the write fails after that.
\<close>

datatype file_state = Absent | Unreadable | Garbage | Json jval

datatype write_mode = WriteOk | WriteDenied | WriteTorn

record disk =
  study_file :: file_state
  wmode :: write_mode

text \<open>\<^verbatim>\<open>with open(STUDY_TIME_FILE, 'w') as f: json.dump(data, f)\<close>; the first component is
  the exception raised, if any.\<close>

definition write_json :: "jval \<Rightarrow> disk \<Rightarrow> exc option \<times> disk" where
  "write_json data d =
     (case wmode d of
        WriteOk \<Rightarrow> (None, d\<lparr>study_file := Json data\<rparr>)
      | WriteDenied \<Rightarrow> (Some OSError, d)
      | WriteTorn \<Rightarrow> (Some OSError, d\<lparr>study_file := Garbage\<rparr>))"

text \<open>\<^verbatim>\<open>save_study_time(seconds)\<close>: the whole body is inside \<^verbatim>\<open>try ... except Exception: pass\<close>,
  so a failing conversion or write leaves the function without a result and without an
  exception.\<close>

definition save_study_time :: "int \<Rightarrow> disk \<Rightarrow> disk" where
  "save_study_time seconds d =
     (case float_of_int (if seconds \<noteq> 0 then seconds else 0) of
        Inl e \<Rightarrow> d
      | Inr f \<Rightarrow>
          (case py_int f of
             Inl e \<Rightarrow> d
           | Inr secs \<Rightarrow> snd (write_json (JObj [(''total_seconds'', JInt (max 0 secs))]) d)))"

text \<open>The inner \<^verbatim>\<open>try: x = int(float(data.get(key) or 0))  except Exception: x = 0\<close>.\<close>

definition get_int_or0 :: "pyrt \<Rightarrow> jval \<Rightarrow> string \<Rightarrow> int" where
  "get_int_or0 rt data k =
     (case py_get data k of
        Inl e \<Rightarrow> 0
      | Inr v \<Rightarrow> (case int_float_or0 rt v of Inl e \<Rightarrow> 0 | Inr n \<Rightarrow> n))"

text \<open>
  The statements of \<^verbatim>\<open>load_study_time\<close> inside its outer \<^verbatim>\<open>try\<close>.  \<open>Inl e\<close>: the statement
  raised \<open>e\<close>; \<open>Inr None\<close>: control fell out of the \<^verbatim>\<open>try\<close> without a \<^verbatim>\<open>return\<close>;
  \<open>Inr (Some v)\<close>: \<^verbatim>\<open>return v\<close>.  The second component is the disk afterwards (the legacy
  branch rewrites the file).
\<close>

definition load_body :: "pyrt \<Rightarrow> disk \<Rightarrow> (exc + int option) \<times> disk" where
  "load_body rt d =
     (case study_file d of
        Absent \<Rightarrow> (Inr None, d)
      | Unreadable \<Rightarrow> (Inl OSError, d)
      | Garbage \<Rightarrow> (Inl JSONDecodeError, d)
      | Json j \<Rightarrow>
          (let data = (if truthy j then j else JObj []) in
           case py_in ''total_seconds'' data of
             Inl e \<Rightarrow> (Inl e, d)
           | Inr True \<Rightarrow> (Inr (Some (max 0 (get_int_or0 rt data ''total_seconds''))), d)
           | Inr False \<Rightarrow>
               (case py_in ''total_minutes'' data of
                  Inl e \<Rightarrow> (Inl e, d)
                | Inr True \<Rightarrow>
                    (let mins = get_int_or0 rt data ''total_minutes'';
                         secs = max 0 mins * 60
                     in (Inr (Some secs), save_study_time secs d))
                | Inr False \<Rightarrow> (Inr None, d))))"

text \<open>\<^verbatim>\<open>load_study_time()\<close>: the outer handler swallows every exception, and both the handler
  and the fall-through end in \<^verbatim>\<open>return 0\<close>.\<close>

definition load_study_time :: "pyrt \<Rightarrow> disk \<Rightarrow> int \<times> disk" where
  "load_study_time rt d =
     (case load_body rt d of
        (Inl e, d') \<Rightarrow> (0, d')
      | (Inr None, d') \<Rightarrow> (0, d')
      | (Inr (Some v), d') \<Rightarrow> (v, d'))"

text \<open>\<^verbatim>\<open>add_study_time(seconds)\<close>.\<close>

definition add_study_time :: "pyrt \<Rightarrow> int \<Rightarrow> disk \<Rightarrow> int \<times> disk" where
  "add_study_time rt seconds d =
     (let (current, d1) = load_study_time rt d;
          new_total = current + seconds
      in (new_total, save_study_time new_total d1))"

section \<open>Dates\<close>

text \<open>
  \<^verbatim>\<open>base + timedelta(days=n)\<close>: the result must stay a date between 0001-01-01 and
  9999-12-31, else \<^verbatim>\<open>OverflowError\<close> (date value out of range).
\<close>

definition us_per_day :: int where
  "us_per_day = 86400000000"

definition datetime_end :: int where
  "datetime_end = 3652059 * us_per_day"

definition add_days :: "int \<Rightarrow> int \<Rightarrow> exc + int" where
  "add_days base n =
     (let t = base + n * us_per_day in
      if 0 \<le> t \<and> t < datetime_end then Inr t else Inl OverflowError)"

section \<open>The task store\<close>

text \<open>
  A column value of SQLite as the program can meet it: \<^verbatim>\<open>NULL\<close>, an integer or a text.
  The integer columns \<open>completed\<close> and \<open>pomodoros\<close> hold an integer or \<^verbatim>\<open>NULL\<close>.
\<close>

datatype sqlval = SNull | SInt int | SText string

record task =
  task_id :: int
  title :: sqlval
  category :: sqlval
  completed :: "int option"
  duedate :: sqlval
  subtasks :: sqlval
  started_at :: sqlval
  completed_at :: sqlval
  priority :: sqlval
  tags :: sqlval
  recurring :: sqlval
  pomodoros :: "int option"
  last_pomodoro_at :: sqlval

text \<open>
  The table \<^verbatim>\<open>tasks\<close> behind an opened connection, in insertion order, and whether running
  a statement on it succeeds (\<open>db_ok\<close>) or raises \<^verbatim>\<open>sqlite3.Error\<close> (the database is locked,
  say).  Every function of the store catches that error, shows a message box (not
  modelled) and leaves the table as it was.  Whether \<^verbatim>\<open>sqlite3.connect\<close> itself succeeds is
  not part of this record: \<^verbatim>\<open>complete_task\<close> reaches \<^verbatim>\<open>complete_task_db\<close> and \<^verbatim>\<open>add_task\<close>
  only after \<^verbatim>\<open>get_tasks\<close> has read the table, and for \<^verbatim>\<open>increment_pomodoro\<close>, which the
  engine calls on its own, it is a parameter.
\<close>

record db =
  rows :: "task list"
  db_ok :: bool

text \<open>The id that SQLite gives a new row of an \<^verbatim>\<open>INTEGER PRIMARY KEY\<close> table: one more than
  the largest id, 1 in an empty table.\<close>

definition new_id :: "task list \<Rightarrow> int" where
  "new_id ts = (if ts = [] then 1 else Max (set (map task_id ts)) + 1)"

text \<open>\<^verbatim>\<open>add_task(task, category, duedate, subtasks, priority, tags, recurring)\<close>; \<open>now_iso\<close> is
  \<^verbatim>\<open>datetime.now().isoformat()\<close>.\<close>

definition add_task ::
  "string \<Rightarrow> sqlval \<Rightarrow> sqlval \<Rightarrow> sqlval \<Rightarrow> sqlval \<Rightarrow> sqlval \<Rightarrow> sqlval \<Rightarrow> sqlval \<Rightarrow> db \<Rightarrow> db" where
  "add_task now_iso ttl cat due subs prio tgs recur d =
     (if db_ok d then
        d\<lparr>rows := rows d @
          [\<lparr>task_id = new_id (rows d), title = ttl, category = cat, completed = Some 0,
            duedate = due, subtasks = subs, started_at = SText now_iso, completed_at = SNull,
            priority = prio, tags = tgs, recurring = recur, pomodoros = Some 0,
            last_pomodoro_at = SNull\<rparr>]\<rparr>
      else d)"

text \<open>\<^verbatim>\<open>complete_task_db(task_id)\<close>:
  \<^verbatim>\<open>UPDATE tasks SET completed = 1, completed_at = ? WHERE id = ?\<close>.\<close>

definition complete_task_db :: "string \<Rightarrow> int \<Rightarrow> db \<Rightarrow> db" where
  "complete_task_db now_iso tid d =
     (if db_ok d then
        d\<lparr>rows := map (\<lambda>r. if task_id r = tid
                              then r\<lparr>completed := Some 1, completed_at := SText now_iso\<rparr>
                              else r) (rows d)\<rparr>
      else d)"

text \<open>The integers that SQLite stores and that can be bound to a statement: 64 bits, signed.\<close>

definition sqlite_int :: "int \<Rightarrow> bool" where
  "sqlite_int i = (- (2 ^ 63) \<le> i \<and> i < 2 ^ 63)"

text \<open>
  \<^verbatim>\<open>increment_pomodoro(task_id)\<close>: nothing for a falsy id (\<^verbatim>\<open>None\<close> or 0), else
  \<^verbatim>\<open>UPDATE tasks SET pomodoros = IFNULL(pomodoros,0)+1, last_pomodoro_at = ? WHERE id = ?\<close>
  inside \<^verbatim>\<open>try ... except sqlite3.Error: pass ... finally: conn.close()\<close>.  \<open>connects\<close> says
  whether \<^verbatim>\<open>sqlite3.connect\<close> succeeds.  If it does not, its \<^verbatim>\<open>sqlite3.Error\<close> is caught, but
  \<^verbatim>\<open>conn\<close> was never bound and \<^verbatim>\<open>conn.close()\<close> in the \<^verbatim>\<open>finally\<close> block raises
  \<^verbatim>\<open>UnboundLocalError\<close>.  An id outside the 64-bit integers cannot be bound to the
  statement: \<^verbatim>\<open>execute\<close> raises \<^verbatim>\<open>OverflowError\<close>, which the handler does not catch.  An
  error of the statement itself is caught, and the table stays as it was.
\<close>

definition increment_pomodoro :: "string \<Rightarrow> int option \<Rightarrow> bool \<Rightarrow> db \<Rightarrow> exc + db" where
  "increment_pomodoro now_iso tid connects d =
     (case tid of
        None \<Rightarrow> Inr d
      | Some i \<Rightarrow>
          if i = 0 then Inr d
          else if \<not> connects then Inl UnboundLocalError
          else if \<not> sqlite_int i then Inl OverflowError
          else if db_ok d then
            Inr (d\<lparr>rows := map (\<lambda>r. if task_id r = i
                                  then r\<lparr>pomodoros := Some ((case pomodoros r of None \<Rightarrow> 0 | Some n \<Rightarrow> n) + 1),
                                         last_pomodoro_at := SText now_iso\<rparr>
                                  else r) (rows d)\<rparr>)
          else Inr d)"

section \<open>The recurrence expander\<close>

text \<open>Truthiness of a column value (\<^verbatim>\<open>if duedate:\<close>, \<^verbatim>\<open>if not recurring\<close>).\<close>

fun sql_truthy :: "sqlval \<Rightarrow> bool" where
  "sql_truthy SNull = False"
| "sql_truthy (SInt n) = (n \<noteq> 0)"
| "sql_truthy (SText s) = (s \<noteq> [])"

text \<open>
  The \<^verbatim>\<open>try\<close> block of \<^verbatim>\<open>_handle_recurring\<close>, which computes \<^verbatim>\<open>next_due\<close>:
  \<^verbatim>\<open>duedate.split('.')[0]\<close> is the text before the first dot and exists only for a text;
  a recurrence other than Daily and Weekly leaves \<^verbatim>\<open>next_due = None\<close>.
\<close>

definition next_due_try :: "pyrt \<Rightarrow> int \<Rightarrow> sqlval \<Rightarrow> sqlval \<Rightarrow> exc + sqlval" where
  "next_due_try rt now due recur =
     (case (if sql_truthy due
            then (case due of
                    SText s \<Rightarrow>
                      (case strptime rt (takeWhile (\<lambda>c. c \<noteq> CHR ''.'') s) of
                         None \<Rightarrow> Inl ValueError
                       | Some b \<Rightarrow> Inr b)
                  | SInt n \<Rightarrow> Inl AttributeError
                  | SNull \<Rightarrow> Inl AttributeError)
            else Inr now) of
        Inl e \<Rightarrow> Inl e
      | Inr base \<Rightarrow>
          if recur = SText ''Daily'' then
            (case add_days base 1 of Inl e \<Rightarrow> Inl e | Inr t \<Rightarrow> Inr (SText (isoformat rt t)))
          else if recur = SText ''Weekly'' then
            (case add_days base 7 of Inl e \<Rightarrow> Inl e | Inr t \<Rightarrow> Inr (SText (isoformat rt t)))
          else Inr SNull)"

text \<open>\<^verbatim>\<open>TaskTracker._handle_recurring(task_row)\<close>: the handler of the \<^verbatim>\<open>try\<close> block sets
  \<^verbatim>\<open>next_due = None\<close>, and \<^verbatim>\<open>add_task\<close> is called after it in every case.\<close>

definition handle_recurring :: "pyrt \<Rightarrow> int \<Rightarrow> task \<Rightarrow> db \<Rightarrow> db" where
  "handle_recurring rt now r d =
     (if \<not> sql_truthy (recurring r) \<or> recurring r = SText ''None'' then d
      else
        let next_due = (case next_due_try rt now (duedate r) (recurring r) of
                          Inl e \<Rightarrow> SNull
                        | Inr v \<Rightarrow> v)
        in add_task (isoformat rt now) (title r) (category r) next_due (subtasks r)
             (priority r) (tags r) (recurring r) d)"

text \<open>\<^verbatim>\<open>TaskTracker.get_selected_task_row()\<close> for the selected id \<open>sel\<close> (\<open>None\<close>: nothing is
  selected): the row of \<^verbatim>\<open>get_tasks()\<close> with that id; a failing query gives no rows.\<close>

definition get_selected_task_row :: "int option \<Rightarrow> db \<Rightarrow> task option" where
  "get_selected_task_row sel d =
     (case sel of
        None \<Rightarrow> None
      | Some i \<Rightarrow> if db_ok d then find (\<lambda>r. task_id r = i) (rows d) else None)"

text \<open>\<^verbatim>\<open>TaskTracker.complete_task()\<close>; the row handed to \<^verbatim>\<open>_handle_recurring\<close> is the one read
  before the update.  Every \<^verbatim>\<open>datetime.now()\<close> of one call is taken to return \<open>now\<close>.\<close>

definition complete_task :: "pyrt \<Rightarrow> int \<Rightarrow> int option \<Rightarrow> db \<Rightarrow> db" where
  "complete_task rt now sel d =
     (case get_selected_task_row sel d of
        None \<Rightarrow> d
      | Some selected \<Rightarrow>
          handle_recurring rt now selected
            (complete_task_db (isoformat rt now) (task_id selected) d))"

section \<open>Settings\<close>

record settings =
  focus_secs :: int
  short_break_secs :: int
  long_break_secs :: int
  long_break_every :: int

text \<open>\<^verbatim>\<open>SettingsManager.__init__\<close> and \<^verbatim>\<open>SettingsManager.set_from_minutes\<close> (called with the
  integer values of the spin boxes).\<close>

definition default_settings :: settings where
  "default_settings =
     \<lparr>focus_secs = 25 * 60, short_break_secs = 5 * 60, long_break_secs = 15 * 60,
      long_break_every = 4\<rparr>"

definition set_from_minutes :: "int \<Rightarrow> int \<Rightarrow> int \<Rightarrow> int \<Rightarrow> settings" where
  "set_from_minutes focus_m short_m long_m every_n =
     \<lparr>focus_secs = max 1 focus_m * 60, short_break_secs = max 1 short_m * 60,
      long_break_secs = max 1 long_m * 60, long_break_every = max 1 every_n\<rparr>"

section \<open>The Pomodoro cycle engine\<close>

datatype phase = Focus | ShortBreak | LongBreak

text \<open>What the engine sends out: the calls of its three optional callbacks and the
  notification sound.  The formatted \<^verbatim>\<open>mm:ss\<close> text that a callback also receives is a
  function of the remaining seconds and is left out.\<close>

datatype event =
    PhaseChange phase int
  | TickEvent phase int
  | CycleComplete phase
  | Sound

text \<open>
  The fields of \<^verbatim>\<open>PomodoroManager\<close>.  \<open>timer_active\<close> is the state of its \<^verbatim>\<open>QTimer\<close>;
  \<open>has_on_...\<close> say which callbacks are set; \<open>events\<close> collects what was sent out.
  \<open>total_session_time\<close> is the pending accrued time, a finite double.
\<close>

record pomodoro =
  phase :: phase
  remaining :: int
  is_running :: bool
  completed_focus_count :: int
  attached_task_id :: "int option"
  session_start_time :: "int option"
  total_session_time :: rat
  timer_active :: bool
  has_on_phase_change :: bool
  has_on_tick :: bool
  has_on_complete_cycle :: bool
  events :: "event list"

text \<open>What the engine writes to: the study-time file and the task table; \<open>db_connects\<close>
  says whether \<^verbatim>\<open>sqlite3.connect\<close> on the database file succeeds.\<close>

record world =
  study :: disk
  tasks :: db
  db_connects :: bool

text \<open>\<^verbatim>\<open>PomodoroManager.__init__\<close>.\<close>

definition new_manager :: "settings \<Rightarrow> bool \<Rightarrow> bool \<Rightarrow> bool \<Rightarrow> pomodoro" where
  "new_manager cfg on_phase_change on_tick on_complete_cycle =
     \<lparr>phase = Focus, remaining = focus_secs cfg, is_running = False,
      completed_focus_count = 0, attached_task_id = None, session_start_time = None,
      total_session_time = 0, timer_active = False,
      has_on_phase_change = on_phase_change, has_on_tick = on_tick,
      has_on_complete_cycle = on_complete_cycle, events = []\<rparr>"

definition attach_task :: "int \<Rightarrow> pomodoro \<Rightarrow> pomodoro" where
  "attach_task tid s = s\<lparr>attached_task_id := Some tid\<rparr>"

definition notify_phase_change :: "pomodoro \<Rightarrow> pomodoro" where
  "notify_phase_change s =
     (if has_on_phase_change s
      then s\<lparr>events := events s @ [PhaseChange (phase s) (remaining s)]\<rparr>
      else s)"

definition reset_phase_duration :: "settings \<Rightarrow> pomodoro \<Rightarrow> pomodoro" where
  "reset_phase_duration cfg s =
     (if phase s = Focus then s\<lparr>remaining := focus_secs cfg\<rparr>
      else if phase s = ShortBreak then s\<lparr>remaining := short_break_secs cfg\<rparr>
      else s\<lparr>remaining := long_break_secs cfg\<rparr>)"

text \<open>
  In the operations below \<open>now\<close> is what \<^verbatim>\<open>datetime.now()\<close> returns during the call (every
  read of the clock within one call is taken to return the same value), and
  \<^verbatim>\<open>elapsed.total_seconds()\<close> is \<open>td_total_seconds rt (now - t0)\<close> for a window opened at \<open>t0\<close>.
\<close>

text \<open>\<^verbatim>\<open>PomodoroManager.save_current_session()\<close>.\<close>

definition save_current_session :: "pyrt \<Rightarrow> int \<Rightarrow> pomodoro \<Rightarrow> world \<Rightarrow> pomodoro \<times> world" where
  "save_current_session rt now s w =
     (case session_start_time s of
        Some t0 \<Rightarrow>
          if phase s = Focus then
            let s1 = s\<lparr>total_session_time :=
                          float_add rt (total_session_time s) (td_total_seconds rt (now - t0)),
                       session_start_time := None\<rparr>
            in if 0 < total_session_time s1
               then (s1\<lparr>total_session_time := 0\<rparr>,
                     w\<lparr>study := snd (add_study_time rt (trunc (total_session_time s1)) (study w))\<rparr>)
               else (s1, w)
          else (s, w)
      | None \<Rightarrow> (s, w))"

text \<open>\<^verbatim>\<open>PomodoroManager.start()\<close>.\<close>

definition start :: "settings \<Rightarrow> int \<Rightarrow> pomodoro \<Rightarrow> pomodoro" where
  "start cfg now s =
     (if \<not> is_running s then
        let s1 = (if remaining s \<le> 0 then reset_phase_duration cfg s else s);
            s2 = s1\<lparr>timer_active := True, is_running := True\<rparr>
        in if phase s2 = Focus \<and> session_start_time s2 = None
           then s2\<lparr>session_start_time := Some now\<rparr>
           else s2
      else s)"

text \<open>\<^verbatim>\<open>PomodoroManager.pause()\<close>.\<close>

definition pause :: "pyrt \<Rightarrow> int \<Rightarrow> pomodoro \<Rightarrow> world \<Rightarrow> pomodoro \<times> world" where
  "pause rt now s w =
     (if is_running s then
        let s0 = s\<lparr>timer_active := False, is_running := False\<rparr> in
        (case session_start_time s0 of
           Some t0 \<Rightarrow>
             if phase s0 = Focus then
               let s1 = s0\<lparr>total_session_time :=
                              float_add rt (total_session_time s0) (td_total_seconds rt (now - t0)),
                           session_start_time := None\<rparr>
               in if 0 < total_session_time s1
                  then (s1\<lparr>total_session_time := 0\<rparr>,
                        w\<lparr>study := snd (add_study_time rt (trunc (total_session_time s1)) (study w))\<rparr>)
                  else (s1, w)
             else (s0, w)
         | None \<Rightarrow> (s0, w))
      else (s, w))"

text \<open>\<^verbatim>\<open>PomodoroManager.reset()\<close>.\<close>

definition reset :: "pyrt \<Rightarrow> settings \<Rightarrow> int \<Rightarrow> pomodoro \<Rightarrow> world \<Rightarrow> pomodoro \<times> world" where
  "reset rt cfg now s w =
     (let s1 = (case session_start_time s of
                  Some t0 \<Rightarrow>
                    if phase s = Focus
                    then s\<lparr>total_session_time :=
                              float_add rt (total_session_time s) (td_total_seconds rt (now - t0)),
                           session_start_time := None\<rparr>
                    else s
                | None \<Rightarrow> s);
          (s2, w2) = (if 0 < total_session_time s1
                      then (s1\<lparr>total_session_time := 0\<rparr>,
                            w\<lparr>study := snd (add_study_time rt (trunc (total_session_time s1)) (study w))\<rparr>)
                      else (s1, w));
          (s3, w3) = pause rt now s2 w2;
          s4 = s3\<lparr>phase := Focus\<rparr>;
          s5 = s4\<lparr>remaining := focus_secs cfg\<rparr>
      in (notify_phase_change s5, w3))"

text \<open>\<^verbatim>\<open>PomodoroManager.switch_phase(phase)\<close>.\<close>

definition switch_phase ::
  "pyrt \<Rightarrow> settings \<Rightarrow> int \<Rightarrow> phase \<Rightarrow> pomodoro \<Rightarrow> world \<Rightarrow> pomodoro \<times> world" where
  "switch_phase rt cfg now p s w =
     (let (s1, w1) =
            (case session_start_time s of
               Some t0 \<Rightarrow>
                 if phase s = Focus then
                   let s0 = s\<lparr>total_session_time :=
                                 float_add rt (total_session_time s) (td_total_seconds rt (now - t0)),
                              session_start_time := None\<rparr>
                   in if 0 < total_session_time s0
                      then (s0\<lparr>total_session_time := 0\<rparr>,
                            w\<lparr>study := snd (add_study_time rt (trunc (total_session_time s0)) (study w))\<rparr>)
                      else (s0, w)
                 else (s, w)
             | None \<Rightarrow> (s, w));
          s2 = notify_phase_change (reset_phase_duration cfg (s1\<lparr>phase := p\<rparr>))
      in if is_running s2 then
           let s3 = s2\<lparr>timer_active := True\<rparr>
           in (if phase s3 = Focus then s3\<lparr>session_start_time := Some now\<rparr> else s3, w1)
         else (s2, w1))"

text \<open>
  The first block of \<^verbatim>\<open>PomodoroManager._handle_phase_end()\<close>, which runs when the phase that
  ends is Focus: count the phase, credit the attached task, flush the open window.  An
  exception of \<^verbatim>\<open>increment_pomodoro\<close> leaves the method after the count was incremented and
  before anything else happens.
\<close>

definition focus_end_block :: "pyrt \<Rightarrow> int \<Rightarrow> pomodoro \<Rightarrow> world \<Rightarrow> exc + pomodoro \<times> world" where
  "focus_end_block rt now s w =
     (let sa = s\<lparr>completed_focus_count := completed_focus_count s + 1\<rparr> in
      case (if attached_task_id sa \<noteq> None \<and> attached_task_id sa \<noteq> Some 0
            then increment_pomodoro (isoformat rt now) (attached_task_id sa)
                   (db_connects w) (tasks w)
            else Inr (tasks w)) of
        Inl e \<Rightarrow> Inl e
      | Inr t \<Rightarrow>
          let wa = w\<lparr>tasks := t\<rparr> in
          Inr (case session_start_time sa of
                 Some t0 \<Rightarrow>
                   let sb = sa\<lparr>total_session_time :=
                                 float_add rt (total_session_time sa)
                                   (td_total_seconds rt (now - t0)),
                               session_start_time := None\<rparr>
                   in (sb\<lparr>total_session_time := 0\<rparr>,
                       wa\<lparr>study := snd (add_study_time rt (trunc (total_session_time sb))
                                            (study wa))\<rparr>)
               | None \<Rightarrow> (sa, wa)))"

text \<open>
  \<^verbatim>\<open>PomodoroManager._handle_phase_end()\<close>.  The remainder by \<^verbatim>\<open>get_every()\<close> raises
  \<^verbatim>\<open>ZeroDivisionError\<close> for 0; Python's \<^verbatim>\<open>%\<close> on integers is \<open>mod\<close> on \<open>int\<close>.
\<close>

definition handle_phase_end ::
  "pyrt \<Rightarrow> settings \<Rightarrow> int \<Rightarrow> pomodoro \<Rightarrow> world \<Rightarrow> exc + pomodoro \<times> world" where
  "handle_phase_end rt cfg now s w =
     (let s0 = s\<lparr>events := events s @ [Sound]\<rparr> in
      case (if phase s0 = Focus then focus_end_block rt now s0 w else Inr (s0, w)) of
        Inl e \<Rightarrow> Inl e
      | Inr sw1 \<Rightarrow>
          let s1 = fst sw1; w1 = snd sw1 in
          if phase s1 = Focus \<and> long_break_every cfg = 0 then Inl ZeroDivisionError
          else
            let s2 = (if phase s1 = Focus then
                        (if completed_focus_count s1 mod long_break_every cfg = 0
                         then s1\<lparr>phase := LongBreak\<rparr>
                         else s1\<lparr>phase := ShortBreak\<rparr>)
                      else s1\<lparr>phase := Focus\<rparr>);
                s3 = notify_phase_change (reset_phase_duration cfg s2)
            in Inr (if has_on_complete_cycle s3
                    then s3\<lparr>events := events s3 @ [CycleComplete (phase s3)]\<rparr>
                    else s3, w1))"

text \<open>\<^verbatim>\<open>PomodoroManager._tick()\<close>, the slot of the timer.\<close>

definition tick :: "pyrt \<Rightarrow> settings \<Rightarrow> int \<Rightarrow> pomodoro \<Rightarrow> world \<Rightarrow> exc + pomodoro \<times> world" where
  "tick rt cfg now s w =
     (if remaining s \<le> 0 then handle_phase_end rt cfg now s w
      else
        let s1 = s\<lparr>remaining := remaining s - 1\<rparr>
        in Inr (if has_on_tick s1
                then s1\<lparr>events := events s1 @ [TickEvent (phase s1) (remaining s1)]\<rparr>
                else s1, w))"

subsection \<open>Runs of the engine\<close>

text \<open>
  What can happen to an engine: a call of one of its methods, or the timer firing.  The
  timer calls \<^verbatim>\<open>_tick\<close> only while it is active.  An exception that leaves \<^verbatim>\<open>_tick\<close> is
  not handled anywhere (the program installs no exception hook, and PyQt5 then aborts), so
  a run ends at the first step that raises.
\<close>

datatype op = Start | Pause | Reset | SwitchPhase phase | AttachTask int | SaveSession | Timeout

definition step ::
  "pyrt \<Rightarrow> settings \<Rightarrow> op \<times> int \<Rightarrow> pomodoro \<times> world \<Rightarrow> exc + pomodoro \<times> world" where
  "step rt cfg x sw =
     (let (s, w) = sw; now = snd x in
      case fst x of
        Start \<Rightarrow> Inr (start cfg now s, w)
      | Pause \<Rightarrow> Inr (pause rt now s w)
      | Reset \<Rightarrow> Inr (reset rt cfg now s w)
      | SwitchPhase p \<Rightarrow> Inr (switch_phase rt cfg now p s w)
      | AttachTask i \<Rightarrow> Inr (attach_task i s, w)
      | SaveSession \<Rightarrow> Inr (save_current_session rt now s w)
      | Timeout \<Rightarrow> if timer_active s then tick rt cfg now s w else Inr (s, w))"

text \<open>A phase ends at a step when the timer fires on an exhausted countdown.\<close>

definition phase_end_at :: "op \<times> int \<Rightarrow> pomodoro \<times> world \<Rightarrow> bool" where
  "phase_end_at x sw = (fst x = Timeout \<and> timer_active (fst sw) \<and> remaining (fst sw) \<le> 0)"

fun run ::
  "pyrt \<Rightarrow> settings \<Rightarrow> (op \<times> int) list \<Rightarrow> pomodoro \<times> world \<Rightarrow> exc + pomodoro \<times> world" where
  "run rt cfg [] sw = Inr sw"
| "run rt cfg (x # xs) sw =
     (case step rt cfg x sw of Inl e \<Rightarrow> Inl e | Inr sw' \<Rightarrow> run rt cfg xs sw')"

text \<open>The phase ends of a run, in order: the phase that ended and the phase entered.\<close>

fun phase_ends ::
  "pyrt \<Rightarrow> settings \<Rightarrow> (op \<times> int) list \<Rightarrow> pomodoro \<times> world \<Rightarrow> (phase \<times> phase) list" where
  "phase_ends rt cfg [] sw = []"
| "phase_ends rt cfg (x # xs) sw =
     (case step rt cfg x sw of
        Inl e \<Rightarrow> []
      | Inr sw' \<Rightarrow>
          (if phase_end_at x sw then [(phase (fst sw), phase (fst sw'))] else [])
          @ phase_ends rt cfg xs sw')"

text \<open>The phases entered after the Focus ends of a run, and after the break ends.\<close>

definition after_focus :: "(phase \<times> phase) list \<Rightarrow> phase list" where
  "after_focus l = map snd (filter (\<lambda>e. fst e = Focus) l)"

definition after_break :: "(phase \<times> phase) list \<Rightarrow> phase list" where
  "after_break l = map snd (filter (\<lambda>e. fst e \<noteq> Focus) l)"

section \<open>A sample runtime\<close>

text \<open>
  An instance of the runtime parameters for evaluating the model on concrete inputs: exact
  arithmetic, and the conversions between dates and texts given on the dates used below
  (2024-01-01T09:00:00 is microsecond 63839696400000000, 9999-12-31T09:00:00 is microsecond
  315537843600000000).  No other text is taken to be a date, and no text to be a float.
\<close>

definition rt_sample :: pyrt where
  "rt_sample =
     \<lparr>str_to_float = (\<lambda>s. None),
      float_add = (\<lambda>x y. x + y),
      td_total_seconds = (\<lambda>us. of_int us / 1000000),
      strptime = (\<lambda>s. if s = ''2024-01-01T09:00:00'' then Some 63839696400000000
                       else if s = ''9999-12-31T09:00:00'' then Some 315537843600000000
                       else None),
      isoformat = (\<lambda>t. if t = 63839696400000000 then ''2024-01-01T09:00:00''
                        else if t = 63839782800000000 then ''2024-01-02T09:00:00''
                        else if t = 63840301200000000 then ''2024-01-08T09:00:00''
                        else [])\<rparr>"

text \<open>Sample tasks: a daily task due 2024-01-01T09:00:00, a task that is already completed,
  and a daily task whose due date is not a date.\<close>

definition task_daily :: task where
  "task_daily =
     \<lparr>task_id = 1, title = SText ''Read chapter 3'', category = SText ''Study'',
      completed = Some 0, duedate = SText ''2024-01-01T09:00:00'', subtasks = SText [],
      started_at = SText ''2023-12-31T08:00:00'', completed_at = SNull,
      priority = SText ''High'', tags = SText ''exam'', recurring = SText ''Daily'',
      pomodoros = Some 2, last_pomodoro_at = SNull\<rparr>"

definition task_done :: task where
  "task_done =
     task_daily\<lparr>completed := Some 1, completed_at := SText ''2024-01-01T09:00:00'',
                recurring := SText ''None''\<rparr>"

definition task_bad_due :: task where
  "task_bad_due = task_daily\<lparr>duedate := SText ''tomorrow''\<rparr>"

text \<open>
  Sample runs of the engine with phases of one minute and a long break after every second
  Focus phase: the timer firing once a second from 2024-01-01T09:00:00 on, through three
  phase ends; the same with a reset after the first Focus phase; and a running engine whose
  Focus countdown is exhausted.
\<close>

definition cfg_short :: settings where
  "cfg_short = set_from_minutes 1 1 1 2"

definition world_sample :: world where
  "world_sample =
     \<lparr>study = \<lparr>study_file = Absent, wmode = WriteOk\<rparr>,
      tasks = \<lparr>rows = [task_daily], db_ok = True\<rparr>, db_connects = True\<rparr>"

text \<open>The same world with 100 seconds on the counter, with a counter file that cannot be
  written, and with \<open>2 ^ 53\<close> seconds on the counter.\<close>

definition world_100 :: world where
  "world_100 =
     world_sample\<lparr>study := \<lparr>study_file = Json (JObj [(''total_seconds'', JInt 100)]),
                            wmode = WriteOk\<rparr>\<rparr>"

definition world_readonly :: world where
  "world_readonly =
     world_sample\<lparr>study := \<lparr>study_file = Json (JObj [(''total_seconds'', JInt 100)]),
                            wmode = WriteDenied\<rparr>\<rparr>"

definition world_full :: world where
  "world_full =
     world_sample\<lparr>study := \<lparr>study_file = Json (JObj [(''total_seconds'', JInt 9007199254740992)]),
                            wmode = WriteOk\<rparr>\<rparr>"

definition timeouts :: "nat \<Rightarrow> nat \<Rightarrow> (op \<times> int) list" where
  "timeouts i n = map (\<lambda>j. (Timeout, 63839696400000000 + int j * 1000000)) [i..<i + n]"

definition run_plain :: "(op \<times> int) list" where
  "run_plain = (Start, 63839696400000000) # timeouts 1 183"

definition run_with_reset :: "(op \<times> int) list" where
  "run_with_reset =
     (Start, 63839696400000000) # timeouts 1 61
     @ (Reset, 63839696462000000) # (Start, 63839696463000000) # timeouts 64 61"

text \<open>The first run again, after the task with the id 1 was attached.\<close>

definition run_attached :: "(op \<times> int) list" where
  "run_attached = (AttachTask 1, 63839696400000000) # run_plain"

definition focus_due :: pomodoro where
  "focus_due =
     (new_manager cfg_short True True False)
       \<lparr>remaining := 0, is_running := True, timer_active := True,
        session_start_time := Some 63839696400000000\<rparr>"



section \<open>Conversions between integers and doubles\<close>

lemma bitlen_small: "\<bar>n\<bar> < 2 ^ 53 \<Longrightarrow> bitlen \<bar>n\<bar> - 53 \<le> 0"
  using bitlen_le_iff_power[of "\<bar>n\<bar>" 53] by simp

lemma bitlen_2_53: "bitlen (2 ^ 53) = 54"
  using bitlen_pow2[of 1 53] by (simp add: compute_bitlen[of 1])

lemma round53_exact: "\<bar>n\<bar> \<le> 2 ^ 53 \<Longrightarrow> round53 n = n"
proof (cases "\<bar>n\<bar> = 2 ^ 53")
  case True
  then have "bitlen \<bar>n\<bar> = 54" using bitlen_2_53 by simp
  with True show ?thesis
    by (auto simp: round53_def Let_def abs_if split: if_splits)
next
  case False
  assume "\<bar>n\<bar> \<le> 2 ^ 53"
  with False have "\<bar>n\<bar> < 2 ^ 53" by simp
  then show ?thesis using bitlen_small[of n] by (simp add: round53_def Let_def)
qed

lemma round53_sign:
  assumes "n \<le> 0"
  shows "round53 n \<le> 0"
proof (cases "bitlen \<bar>n\<bar> - 53 \<le> 0")
  case True
  then show ?thesis using assms by (simp add: round53_def Let_def)
next
  case False
  define p :: int where "p = 2 ^ nat (bitlen \<bar>n\<bar> - 53)"
  define q where "q = \<bar>n\<bar> div p"
  define q' where "q' = (if p div 2 < \<bar>n\<bar> mod p \<or> (\<bar>n\<bar> mod p = p div 2 \<and> odd q) then q + 1 else q)"
  have "0 < p" by (simp add: p_def)
  then have "0 \<le> q" by (simp add: q_def pos_imp_zdiv_nonneg_iff)
  then have "0 \<le> q' * p" using \<open>0 < p\<close> by (simp add: q'_def)
  moreover have "sgn n \<le> 0" using assms by (simp add: sgn_if)
  ultimately have "sgn n * (q' * p) \<le> 0" by (simp add: mult_nonpos_nonneg)
  moreover have "round53 n = sgn n * (q' * p)"
    using False by (simp add: round53_def Let_def p_def q_def q'_def)
  ultimately show ?thesis by simp
qed

lemma or_zero_int: "(if n \<noteq> 0 then n else 0) = (n::int)"
  by simp

lemma trunc_of_int: "trunc (of_int n) = n"
  by (simp add: trunc_def)

lemma trunc_zero: "trunc 0 = 0"
  by (simp add: trunc_def)

lemma float_of_int_exact:
  assumes "\<bar>n\<bar> \<le> 2 ^ 53"
  shows "float_of_int n = Inr (Finite (of_int n))"
proof -
  have "(2::int) ^ 53 < 2 ^ 1024" by simp
  with assms have "\<not> 2 ^ 1024 \<le> \<bar>n\<bar>" by linarith
  then show ?thesis using round53_exact[OF assms] by (simp add: float_of_int_def)
qed

lemma save_exact:
  assumes "0 \<le> n" "float_of_int n = Inr (Finite (of_int n))" "wmode d = WriteOk"
  shows "save_study_time n d = d\<lparr>study_file := Json (JObj [(''total_seconds'', JInt n)])\<rparr>"
  using assms
  by (simp only: save_study_time_def or_zero_int) (simp add: trunc_of_int write_json_def)

lemma get_int_exact:
  assumes "float_of_int n = Inr (Finite (of_int n))" "map_of kvs k = Some (JInt n)"
  shows "get_int_or0 rt (JObj kvs) k = n"
proof (cases "n = 0")
  case True
  then show ?thesis using assms float_of_int_exact[of 0]
    by (simp add: get_int_or0_def int_float_or0_def trunc_zero)
next
  case False
  then show ?thesis using assms
    by (simp add: get_int_or0_def int_float_or0_def trunc_of_int)
qed

lemma load_seconds_key:
  assumes "study_file d = Json (JObj kvs)" "map_of kvs ''total_seconds'' = Some v"
  shows "load_study_time rt d = (max 0 (get_int_or0 rt (JObj kvs) ''total_seconds''), d)"
proof -
  from assms(2) have "kvs \<noteq> []" by auto
  then show ?thesis using assms
    by (simp add: load_study_time_def load_body_def)
qed

lemma load_minutes_key:
  assumes "study_file d = Json (JObj kvs)" "map_of kvs ''total_seconds'' = None"
    "map_of kvs ''total_minutes'' = Some v"
  shows "load_study_time rt d =
     (max 0 (get_int_or0 rt (JObj kvs) ''total_minutes'') * 60,
      save_study_time (max 0 (get_int_or0 rt (JObj kvs) ''total_minutes'') * 60) d)"
proof -
  from assms(3) have "kvs \<noteq> []" by auto
  then show ?thesis using assms
    by (simp add: load_study_time_def load_body_def Let_def)
qed

section \<open>Saving and loading the study time\<close>

text \<open>
  C6 (as amended).  For every non-negative integer \<open>n\<close> that is exactly a double, that is,
  which \<^verbatim>\<open>float(n)\<close> converts without rounding and without overflow (every \<open>n \<le> 2 ^ 53\<close> is
  one, by \<open>float_of_int_exact\<close>), saving \<open>n\<close> and then loading returns exactly \<open>n\<close>, when
  the write succeeds (the file written is then read back).
\<close>

theorem save_load_roundtrip:
  assumes "0 \<le> n" "float_of_int n = Inr (Finite (of_int n))" "wmode d = WriteOk"
  shows "fst (load_study_time rt (save_study_time n d)) = n"
proof -
  let ?d = "d\<lparr>study_file := Json (JObj [(''total_seconds'', JInt n)])\<rparr>"
  have "load_study_time rt ?d =
          (max 0 (get_int_or0 rt (JObj [(''total_seconds'', JInt n)]) ''total_seconds''), ?d)"
    by (rule load_seconds_key) simp_all
  moreover have "get_int_or0 rt (JObj [(''total_seconds'', JInt n)]) ''total_seconds'' = n"
    using assms(2) by (rule get_int_exact) simp
  ultimately show ?thesis using assms by (simp add: save_exact)
qed

theorem save_load_roundtrip_witness:
  "fst (load_study_time rt_sample
          (save_study_time 300 \<lparr>study_file = Absent, wmode = WriteOk\<rparr>)) = 300
   \<and> fst (load_study_time rt_sample
          (save_study_time 1152921504606846976 \<lparr>study_file = Absent, wmode = WriteOk\<rparr>))
       = 1152921504606846976"
proof -
  have a: "float_of_int 300 = Inr (Finite (of_int 300))"
    by (rule float_of_int_exact) simp
  have b: "float_of_int 1152921504606846976 = Inr (Finite (of_int 1152921504606846976))"
    by code_simp
  show ?thesis
    using save_load_roundtrip[of 300 "\<lparr>study_file = Absent, wmode = WriteOk\<rparr>" rt_sample]
      save_load_roundtrip[of 1152921504606846976 "\<lparr>study_file = Absent, wmode = WriteOk\<rparr>"
        rt_sample] a b
    by simp
qed

text \<open>
  The round trip as the claim states it, for every non-negative integer, fails:
  \<^verbatim>\<open>save_study_time\<close> converts through \<^verbatim>\<open>float\<close>, and \<open>2 ^ 53 + 1\<close> is not a double.
\<close>

theorem save_load_roundtrip_counterexample:
  "fst (load_study_time rt_sample
          (save_study_time 9007199254740993 \<lparr>study_file = Absent, wmode = WriteOk\<rparr>))
     \<noteq> 9007199254740993"
  by code_simp

section \<open>Loading never fails\<close>

lemma load_nonneg: "0 \<le> fst (load_study_time rt d)"
  by (simp add: load_study_time_def load_body_def Let_def
           split: file_state.splits sum.splits bool.splits prod.splits option.splits)

lemma load_body_raises: "fst (load_body rt d) = Inl e \<Longrightarrow> load_study_time rt d = (0, d)"
  by (auto simp: load_study_time_def load_body_def Let_def
           split: file_state.splits sum.splits bool.splits prod.splits option.splits if_splits)

lemma load_no_file:
  "study_file d = Absent \<or> study_file d = Unreadable \<or> study_file d = Garbage
     \<Longrightarrow> load_study_time rt d = (0, d)"
  by (auto simp: load_study_time_def load_body_def)

lemma get_int_non_object: "\<forall>kvs. j \<noteq> JObj kvs \<Longrightarrow> get_int_or0 rt j k = 0"
  by (cases j) (simp_all add: get_int_or0_def)

lemma load_non_object:
  assumes "study_file d = Json j" "\<forall>kvs. j \<noteq> JObj kvs"
  shows "fst (load_study_time rt d) = 0"
proof (cases "truthy j")
  case True
  then show ?thesis using assms get_int_non_object[OF assms(2), of rt]
    by (simp add: load_study_time_def load_body_def Let_def
           split: sum.splits bool.splits)
next
  case False
  then show ?thesis using assms
    by (simp add: load_study_time_def load_body_def)
qed

lemma int_float_or0_nonnumeric:
  assumes "v = JNull \<or> v = JFloat NaN \<or> v = JFloat PInf \<or> v = JFloat NInf
           \<or> (\<exists>xs. v = JList xs) \<or> (\<exists>kvs. v = JObj kvs)
           \<or> (\<exists>s. v = JStr s \<and> str_to_float rt s = None)"
  shows "(case int_float_or0 rt v of Inl e \<Rightarrow> 0 | Inr n \<Rightarrow> n) = 0"
  using assms
  by (auto simp: int_float_or0_def float_of_int_exact[of 0, simplified] trunc_zero)

lemma int_float_or0_negative:
  assumes "(\<exists>n. v = JInt n \<and> n < 0) \<or> (\<exists>q. v = JFloat (Finite q) \<and> q < 0)"
  shows "max 0 (case int_float_or0 rt v of Inl e \<Rightarrow> 0 | Inr n \<Rightarrow> n) = 0"
proof -
  { fix n :: int assume "n < 0"
    then have "round53 n \<le> 0" by (simp add: round53_sign)
    then have "max 0 (case int_float_or0 rt (JInt n) of Inl e \<Rightarrow> 0 | Inr n \<Rightarrow> n) = 0"
      using \<open>n < 0\<close> by (simp add: int_float_or0_def float_of_int_def Let_def trunc_of_int) }
  moreover
  { fix q :: rat assume "q < 0"
    then have "\<lceil>q\<rceil> \<le> 0" by (simp add: ceiling_le_iff)
    then have "max 0 (case int_float_or0 rt (JFloat (Finite q)) of Inl e \<Rightarrow> 0 | Inr n \<Rightarrow> n) = 0"
      using \<open>q < 0\<close> by (simp add: int_float_or0_def trunc_def) }
  ultimately show ?thesis using assms by auto
qed

lemma get_int_obj:
  "map_of kvs k = Some v \<Longrightarrow>
     get_int_or0 rt (JObj kvs) k = (case int_float_or0 rt v of Inl e \<Rightarrow> 0 | Inr n \<Rightarrow> n)"
  by (simp add: get_int_or0_def)

lemma int_float_or0_bool:
  "(case int_float_or0 rt (JBool b) of Inl e \<Rightarrow> 0 | Inr n \<Rightarrow> n) = (if b then 1 else 0)"
  using trunc_of_int[of 1]
  by (simp add: int_float_or0_def float_of_int_exact[of 0, simplified] trunc_zero)

text \<open>
  C7 (as amended).  For every state of the study-time file, \<^verbatim>\<open>load_study_time\<close> returns a
  value, and the value is not negative: every exception raised inside it is swallowed and
  gives 0; a missing, unreadable or corrupt file gives 0 and is left as it is; a JSON value
  that is not an object gives 0; under the key that is read (the seconds key, or the legacy
  key when there is no seconds key) null, a list, an object, a text that \<^verbatim>\<open>float\<close> rejects,
  a NaN and an infinity give 0, and a negative number is clamped to 0.  A JSON boolean
  under that key counts as a number: \<^verbatim>\<open>false\<close> gives 0, and \<^verbatim>\<open>true\<close> gives 1 second under
  the seconds key and 60 seconds under the legacy key, which are then saved as seconds.
\<close>

theorem load_total_nonneg:
  "0 \<le> fst (load_study_time rt d)
   \<and> (\<forall>e. fst (load_body rt d) = Inl e \<longrightarrow> load_study_time rt d = (0, d))
   \<and> (study_file d = Absent \<or> study_file d = Unreadable \<or> study_file d = Garbage
        \<longrightarrow> load_study_time rt d = (0, d))
   \<and> (\<forall>j. study_file d = Json j \<and> (\<forall>kvs. j \<noteq> JObj kvs) \<longrightarrow> fst (load_study_time rt d) = 0)
   \<and> (\<forall>kvs k v. study_file d = Json (JObj kvs)
         \<and> (k = ''total_seconds'' \<or> k = ''total_minutes'' \<and> map_of kvs ''total_seconds'' = None)
         \<and> map_of kvs k = Some v
         \<and> (v = JNull \<or> v = JFloat NaN \<or> v = JFloat PInf \<or> v = JFloat NInf
             \<or> (\<exists>xs. v = JList xs) \<or> (\<exists>ob. v = JObj ob)
             \<or> (\<exists>s. v = JStr s \<and> str_to_float rt s = None)
             \<or> (\<exists>n. v = JInt n \<and> n < 0) \<or> (\<exists>q. v = JFloat (Finite q) \<and> q < 0))
        \<longrightarrow> fst (load_study_time rt d) = 0)
   \<and> (\<forall>kvs. study_file d = Json (JObj kvs)
         \<and> map_of kvs ''total_seconds'' = Some (JBool False)
        \<longrightarrow> load_study_time rt d = (0, d))
   \<and> (\<forall>kvs. study_file d = Json (JObj kvs)
         \<and> map_of kvs ''total_seconds'' = Some (JBool True)
        \<longrightarrow> load_study_time rt d = (1, d))
   \<and> (\<forall>kvs. study_file d = Json (JObj kvs) \<and> map_of kvs ''total_seconds'' = None
         \<and> map_of kvs ''total_minutes'' = Some (JBool False)
        \<longrightarrow> load_study_time rt d = (0, save_study_time 0 d))
   \<and> (\<forall>kvs. study_file d = Json (JObj kvs) \<and> map_of kvs ''total_seconds'' = None
         \<and> map_of kvs ''total_minutes'' = Some (JBool True)
        \<longrightarrow> load_study_time rt d = (60, save_study_time 60 d))"
proof (intro conjI allI impI)
  show "0 \<le> fst (load_study_time rt d)" by (rule load_nonneg)
next
  fix e assume "fst (load_body rt d) = Inl e"
  then show "load_study_time rt d = (0, d)" by (rule load_body_raises)
next
  assume "study_file d = Absent \<or> study_file d = Unreadable \<or> study_file d = Garbage"
  then show "load_study_time rt d = (0, d)" by (rule load_no_file)
next
  fix j assume "study_file d = Json j \<and> (\<forall>kvs. j \<noteq> JObj kvs)"
  then show "fst (load_study_time rt d) = 0" using load_non_object by blast
next
  fix kvs k v
  assume a: "study_file d = Json (JObj kvs)
         \<and> (k = ''total_seconds'' \<or> k = ''total_minutes'' \<and> map_of kvs ''total_seconds'' = None)
         \<and> map_of kvs k = Some v
         \<and> (v = JNull \<or> v = JFloat NaN \<or> v = JFloat PInf \<or> v = JFloat NInf
             \<or> (\<exists>xs. v = JList xs) \<or> (\<exists>ob. v = JObj ob)
             \<or> (\<exists>s. v = JStr s \<and> str_to_float rt s = None)
             \<or> (\<exists>n. v = JInt n \<and> n < 0) \<or> (\<exists>q. v = JFloat (Finite q) \<and> q < 0))"
  then have kv: "map_of kvs k = Some v" and f: "study_file d = Json (JObj kvs)" by simp_all
  have m0: "max 0 (get_int_or0 rt (JObj kvs) k) = 0"
  proof (cases "(\<exists>n. v = JInt n \<and> n < 0) \<or> (\<exists>q. v = JFloat (Finite q) \<and> q < 0)")
    case True
    then show ?thesis using int_float_or0_negative[of v rt] kv by (simp add: get_int_obj)
  next
    case False
    with a have "v = JNull \<or> v = JFloat NaN \<or> v = JFloat PInf \<or> v = JFloat NInf
           \<or> (\<exists>xs. v = JList xs) \<or> (\<exists>kvs. v = JObj kvs)
           \<or> (\<exists>s. v = JStr s \<and> str_to_float rt s = None)" by blast
    then show ?thesis using int_float_or0_nonnumeric[of v rt] kv by (simp add: get_int_obj)
  qed
  from a have "k = ''total_seconds'' \<or> (k = ''total_minutes'' \<and> map_of kvs ''total_seconds'' = None)"
    by simp
  then consider "k = ''total_seconds''"
    | "k = ''total_minutes''" "map_of kvs ''total_seconds'' = None" by auto
  then show "fst (load_study_time rt d) = 0"
  proof cases
    case 1
    then show ?thesis using load_seconds_key[OF f, of v rt] kv m0 by simp
  next
    case 2
    then show ?thesis using load_minutes_key[OF f, of v rt] kv m0 by simp
  qed
next
  fix kvs
  assume a: "study_file d = Json (JObj kvs)
         \<and> map_of kvs ''total_seconds'' = Some (JBool False)"
  then have "get_int_or0 rt (JObj kvs) ''total_seconds'' = 0"
    by (simp add: get_int_obj int_float_or0_bool)
  then show "load_study_time rt d = (0, d)"
    using a load_seconds_key[of d kvs "JBool False" rt] by simp
next
  fix kvs
  assume a: "study_file d = Json (JObj kvs)
         \<and> map_of kvs ''total_seconds'' = Some (JBool True)"
  then have "get_int_or0 rt (JObj kvs) ''total_seconds'' = 1"
    by (simp add: get_int_obj int_float_or0_bool)
  then show "load_study_time rt d = (1, d)"
    using a load_seconds_key[of d kvs "JBool True" rt] by simp
next
  fix kvs
  assume a: "study_file d = Json (JObj kvs) \<and> map_of kvs ''total_seconds'' = None
         \<and> map_of kvs ''total_minutes'' = Some (JBool False)"
  then have "get_int_or0 rt (JObj kvs) ''total_minutes'' = 0"
    by (simp add: get_int_obj int_float_or0_bool)
  then show "load_study_time rt d = (0, save_study_time 0 d)"
    using a load_minutes_key[of d kvs "JBool False" rt] by simp
next
  fix kvs
  assume a: "study_file d = Json (JObj kvs) \<and> map_of kvs ''total_seconds'' = None
         \<and> map_of kvs ''total_minutes'' = Some (JBool True)"
  then have "get_int_or0 rt (JObj kvs) ''total_minutes'' = 1"
    by (simp add: get_int_obj int_float_or0_bool)
  then show "load_study_time rt d = (60, save_study_time 60 d)"
    using a load_minutes_key[of d kvs "JBool True" rt] by simp
qed

theorem load_total_nonneg_witness:
  "load_study_time rt_sample \<lparr>study_file = Absent, wmode = WriteOk\<rparr>
     = (0, \<lparr>study_file = Absent, wmode = WriteOk\<rparr>)
   \<and> load_study_time rt_sample \<lparr>study_file = Unreadable, wmode = WriteOk\<rparr>
     = (0, \<lparr>study_file = Unreadable, wmode = WriteOk\<rparr>)
   \<and> load_study_time rt_sample \<lparr>study_file = Garbage, wmode = WriteOk\<rparr>
     = (0, \<lparr>study_file = Garbage, wmode = WriteOk\<rparr>)
   \<and> fst (load_study_time rt_sample \<lparr>study_file = Json (JInt 5), wmode = WriteOk\<rparr>) = 0
   \<and> fst (load_study_time rt_sample
        \<lparr>study_file = Json (JObj [(''total_seconds'', JStr ''abc'')]), wmode = WriteOk\<rparr>) = 0
   \<and> fst (load_study_time rt_sample
        \<lparr>study_file = Json (JObj [(''total_seconds'', JInt (- 5))]), wmode = WriteOk\<rparr>) = 0
   \<and> fst (load_study_time rt_sample
        \<lparr>study_file = Json (JObj [(''total_minutes'', JInt (- 5))]), wmode = WriteOk\<rparr>) = 0
   \<and> load_study_time rt_sample
        \<lparr>study_file = Json (JObj [(''total_seconds'', JBool False)]), wmode = WriteOk\<rparr>
     = (0, \<lparr>study_file = Json (JObj [(''total_seconds'', JBool False)]), wmode = WriteOk\<rparr>)
   \<and> load_study_time rt_sample
        \<lparr>study_file = Json (JObj [(''total_seconds'', JBool True)]), wmode = WriteDenied\<rparr>
     = (1, \<lparr>study_file = Json (JObj [(''total_seconds'', JBool True)]), wmode = WriteDenied\<rparr>)
   \<and> load_study_time rt_sample
        \<lparr>study_file = Json (JObj [(''total_minutes'', JBool True)]), wmode = WriteDenied\<rparr>
     = (60, \<lparr>study_file = Json (JObj [(''total_minutes'', JBool True)]), wmode = WriteDenied\<rparr>)"
  using load_total_nonneg[of rt_sample "\<lparr>study_file = Absent, wmode = WriteOk\<rparr>"]
    load_total_nonneg[of rt_sample "\<lparr>study_file = Unreadable, wmode = WriteOk\<rparr>"]
    load_total_nonneg[of rt_sample "\<lparr>study_file = Garbage, wmode = WriteOk\<rparr>"]
    load_total_nonneg[of rt_sample "\<lparr>study_file = Json (JInt 5), wmode = WriteOk\<rparr>"]
    load_total_nonneg[of rt_sample
      "\<lparr>study_file = Json (JObj [(''total_seconds'', JStr ''abc'')]), wmode = WriteOk\<rparr>"]
    load_total_nonneg[of rt_sample
      "\<lparr>study_file = Json (JObj [(''total_seconds'', JInt (- 5))]), wmode = WriteOk\<rparr>"]
    load_total_nonneg[of rt_sample
      "\<lparr>study_file = Json (JObj [(''total_minutes'', JInt (- 5))]), wmode = WriteOk\<rparr>"]
    load_total_nonneg[of rt_sample
      "\<lparr>study_file = Json (JObj [(''total_seconds'', JBool False)]), wmode = WriteOk\<rparr>"]
    load_total_nonneg[of rt_sample
      "\<lparr>study_file = Json (JObj [(''total_seconds'', JBool True)]), wmode = WriteDenied\<rparr>"]
    load_total_nonneg[of rt_sample
      "\<lparr>study_file = Json (JObj [(''total_minutes'', JBool True)]), wmode = WriteDenied\<rparr>"]
  by (simp add: rt_sample_def save_study_time_def write_json_def
      float_of_int_exact[of 60, simplified] trunc_of_int[of 60, simplified])

text \<open>
  That data which is not a number loads as 0 fails for the JSON booleans: \<^verbatim>\<open>true\<close> under
  the seconds key loads as 1, and under the legacy key as 60, which is written back as 60
  seconds.
\<close>

theorem load_total_nonneg_counterexample:
  "load_study_time rt_sample
     \<lparr>study_file = Json (JObj [(''total_seconds'', JBool True)]), wmode = WriteOk\<rparr>
     = (1, \<lparr>study_file = Json (JObj [(''total_seconds'', JBool True)]), wmode = WriteOk\<rparr>)
   \<and> load_study_time rt_sample
     \<lparr>study_file = Json (JObj [(''total_minutes'', JBool True)]), wmode = WriteOk\<rparr>
     = (60, \<lparr>study_file = Json (JObj [(''total_seconds'', JInt 60)]), wmode = WriteOk\<rparr>)"
  by code_simp

section \<open>Migration of the legacy minutes\<close>

lemma load_seconds_int:
  assumes "0 \<le> n" "float_of_int n = Inr (Finite (of_int n))" "study_file d = Json (JObj kvs)"
    "map_of kvs ''total_seconds'' = Some (JInt n)"
  shows "load_study_time rt d = (n, d)"
proof -
  have "get_int_or0 rt (JObj kvs) ''total_seconds'' = n"
    using assms(2,4) by (rule get_int_exact)
  then show ?thesis using load_seconds_key[OF assms(3,4), of rt] assms(1) by simp
qed

text \<open>
  C5 (as amended).  If the file holds an object with the key \<^verbatim>\<open>total_minutes\<close> and an
  integer \<open>m \<ge> 0\<close>, without the key \<^verbatim>\<open>total_seconds\<close>, where \<open>m\<close> and \<open>60 * m\<close> are exactly
  doubles (as they are whenever \<open>60 * m \<le> 2 ^ 53\<close>), and the write succeeds, then load
  returns \<open>60 * m\<close> and rewrites the file as \<^verbatim>\<open>{"total_seconds": 60 * m}\<close>; the next load
  returns \<open>60 * m\<close> again and leaves the file as it is.  If both keys are present, load
  returns what the seconds key alone gives and does not write.
\<close>

theorem legacy_minutes_migration:
  "(study_file d = Json (JObj kvs) \<and> wmode d = WriteOk
      \<and> map_of kvs ''total_seconds'' = None \<and> map_of kvs ''total_minutes'' = Some (JInt m)
      \<and> 0 \<le> m \<and> float_of_int m = Inr (Finite (of_int m))
      \<and> float_of_int (m * 60) = Inr (Finite (of_int (m * 60)))
     \<longrightarrow> load_study_time rt d =
           (m * 60, d\<lparr>study_file := Json (JObj [(''total_seconds'', JInt (m * 60))])\<rparr>)
         \<and> load_study_time rt (snd (load_study_time rt d)) =
           (m * 60, snd (load_study_time rt d)))
   \<and> (study_file d' = Json (JObj kvs') \<and> map_of kvs' ''total_seconds'' = Some v
      \<and> map_of kvs' ''total_minutes'' = Some u
     \<longrightarrow> load_study_time rt d' =
           (fst (load_study_time rt (d'\<lparr>study_file := Json (JObj [(''total_seconds'', v)])\<rparr>)), d'))"
proof (intro conjI impI)
  assume a: "study_file d = Json (JObj kvs) \<and> wmode d = WriteOk
      \<and> map_of kvs ''total_seconds'' = None \<and> map_of kvs ''total_minutes'' = Some (JInt m)
      \<and> 0 \<le> m \<and> float_of_int m = Inr (Finite (of_int m))
      \<and> float_of_int (m * 60) = Inr (Finite (of_int (m * 60)))"
  have g: "get_int_or0 rt (JObj kvs) ''total_minutes'' = m"
    using a by (intro get_int_exact) simp_all
  let ?d = "d\<lparr>study_file := Json (JObj [(''total_seconds'', JInt (m * 60))])\<rparr>"
  have s: "save_study_time (m * 60) d = ?d"
    using a by (intro save_exact) simp_all
  have 1: "load_study_time rt d = (m * 60, ?d)"
    using a load_minutes_key[of d kvs "JInt m" rt] g s by simp
  have 2: "load_study_time rt ?d = (m * 60, ?d)"
  proof (rule load_seconds_int)
    show "0 \<le> m * 60" using a by simp
    show "float_of_int (m * 60) = Inr (Finite (of_int (m * 60)))" using a by simp
    show "study_file ?d = Json (JObj [(''total_seconds'', JInt (m * 60))])" by simp
    show "map_of [(''total_seconds'', JInt (m * 60))] ''total_seconds'' = Some (JInt (m * 60))"
      by simp
  qed
  from 1 show "load_study_time rt d = (m * 60, ?d)" .
  from 1 2 show "load_study_time rt (snd (load_study_time rt d)) = (m * 60, snd (load_study_time rt d))"
    by simp
next
  assume b: "study_file d' = Json (JObj kvs') \<and> map_of kvs' ''total_seconds'' = Some v
      \<and> map_of kvs' ''total_minutes'' = Some u"
  let ?d = "d'\<lparr>study_file := Json (JObj [(''total_seconds'', v)])\<rparr>"
  have "load_study_time rt ?d =
          (max 0 (get_int_or0 rt (JObj [(''total_seconds'', v)]) ''total_seconds''), ?d)"
    by (rule load_seconds_key) simp_all
  moreover have "load_study_time rt d' = (max 0 (get_int_or0 rt (JObj kvs') ''total_seconds''), d')"
    using b by (intro load_seconds_key) simp_all
  moreover have "get_int_or0 rt (JObj kvs') ''total_seconds'' =
                 get_int_or0 rt (JObj [(''total_seconds'', v)]) ''total_seconds''"
    using b by (simp add: get_int_obj)
  ultimately show "load_study_time rt d' = (fst (load_study_time rt ?d), d')" by simp
qed

theorem legacy_minutes_migration_witness:
  "load_study_time rt_sample
     \<lparr>study_file = Json (JObj [(''total_minutes'', JInt 5)]), wmode = WriteOk\<rparr>
   = (300, \<lparr>study_file = Json (JObj [(''total_seconds'', JInt 300)]), wmode = WriteOk\<rparr>)
   \<and> load_study_time rt_sample
       \<lparr>study_file = Json (JObj [(''total_seconds'', JInt 300)]), wmode = WriteOk\<rparr>
     = (300, \<lparr>study_file = Json (JObj [(''total_seconds'', JInt 300)]), wmode = WriteOk\<rparr>)
   \<and> fst (load_study_time rt_sample
       \<lparr>study_file = Json (JObj [(''total_seconds'', JInt 7), (''total_minutes'', JInt 5)]),
        wmode = WriteOk\<rparr>) = 7"
proof -
  note m = legacy_minutes_migration[of
      "\<lparr>study_file = Json (JObj [(''total_minutes'', JInt 5)]), wmode = WriteOk\<rparr>"
      "[(''total_minutes'', JInt 5)]" 5 rt_sample
      "\<lparr>study_file = Json (JObj [(''total_seconds'', JInt 7), (''total_minutes'', JInt 5)]),
        wmode = WriteOk\<rparr>"
      "[(''total_seconds'', JInt 7), (''total_minutes'', JInt 5)]" "JInt 7" "JInt 5"]
  have 1: "load_study_time rt_sample
     \<lparr>study_file = Json (JObj [(''total_minutes'', JInt 5)]), wmode = WriteOk\<rparr>
   = (300, \<lparr>study_file = Json (JObj [(''total_seconds'', JInt 300)]), wmode = WriteOk\<rparr>)"
    using m by (simp add: float_of_int_exact)
  have 2: "load_study_time rt_sample
       \<lparr>study_file = Json (JObj [(''total_seconds'', JInt 300)]), wmode = WriteOk\<rparr>
     = (300, \<lparr>study_file = Json (JObj [(''total_seconds'', JInt 300)]), wmode = WriteOk\<rparr>)"
    using m by (simp add: 1 float_of_int_exact)
  have 3: "fst (load_study_time rt_sample
       \<lparr>study_file = Json (JObj [(''total_seconds'', JInt 7), (''total_minutes'', JInt 5)]),
        wmode = WriteOk\<rparr>) = 7"
    using m by (simp add: load_seconds_int[of 7] float_of_int_exact)
  from 1 2 3 show ?thesis by simp
qed

text \<open>
  For every \<open>m \<ge> 0\<close>, as the claim states it, the result is not always \<open>60 * m\<close>: the
  minutes go through \<^verbatim>\<open>float\<close>, and \<open>2 ^ 53 + 1\<close> is not a double.
\<close>

theorem legacy_minutes_migration_counterexample:
  "fst (load_study_time rt_sample
     \<lparr>study_file = Json (JObj [(''total_minutes'', JInt 9007199254740993)]), wmode = WriteOk\<rparr>)
   \<noteq> 9007199254740993 * 60"
  by code_simp

section \<open>Completing tasks and spawning successors\<close>

lemma new_id_fresh: "new_id ts \<notin> task_id ` set ts"
proof (cases "ts = []")
  case True
  then show ?thesis by simp
next
  case False
  then have "set (map task_id ts) \<noteq> {}" by simp
  { assume "new_id ts \<in> task_id ` set ts"
    then have "new_id ts \<in> set (map task_id ts)" by simp
    then have "new_id ts \<le> Max (set (map task_id ts))" by (intro Max_ge) simp_all
    then have False using False by (simp add: new_id_def) }
  then show ?thesis by blast
qed

lemma new_id_map:
  "(\<And>x. task_id (f x) = task_id x) \<Longrightarrow> new_id (map f ts) = new_id ts"
  by (simp add: new_id_def comp_def)

lemma find_map_id:
  "(\<And>x. task_id (f x) = task_id x) \<Longrightarrow>
     find (\<lambda>x. task_id x = i) (map f ts) = map_option f (find (\<lambda>x. task_id x = i) ts)"
  by (induction ts) simp_all

lemma find_append_Some: "find P xs = Some r \<Longrightarrow> find P (xs @ ys) = Some r"
  by (induction xs) (auto split: if_splits)

lemma find_SomeD: "find P xs = Some r \<Longrightarrow> P r"
  by (induction xs) (auto split: if_splits)

lemma complete_task_rows:
  assumes "db_ok d" "find (\<lambda>x. task_id x = i) (rows d) = Some r"
    "sql_truthy (recurring r)" "recurring r \<noteq> SText ''None''"
  shows "rows (complete_task rt now (Some i) d) =
           map (\<lambda>x. if task_id x = i
                     then x\<lparr>completed := Some 1, completed_at := SText (isoformat rt now)\<rparr>
                     else x) (rows d)
           @ [\<lparr>task_id = new_id (rows d), title = title r, category = category r,
               completed = Some 0,
               duedate = (case next_due_try rt now (duedate r) (recurring r) of
                            Inl e \<Rightarrow> SNull | Inr v \<Rightarrow> v),
               subtasks = subtasks r, started_at = SText (isoformat rt now),
               completed_at = SNull, priority = priority r, tags = tags r,
               recurring = recurring r, pomodoros = Some 0, last_pomodoro_at = SNull\<rparr>]"
proof -
  have i: "task_id r = i" using find_SomeD[OF assms(2)] .
  have "new_id (map (\<lambda>x. if task_id x = i
                     then x\<lparr>completed := Some 1, completed_at := SText (isoformat rt now)\<rparr>
                     else x) (rows d)) = new_id (rows d)"
    by (rule new_id_map) simp
  then show ?thesis using assms i
    by (simp add: complete_task_def get_selected_task_row_def handle_recurring_def
        complete_task_db_def add_task_def Let_def)
qed

lemma complete_task_find:
  assumes "db_ok d" "find (\<lambda>x. task_id x = i) (rows d) = Some r"
  shows "find (\<lambda>x. task_id x = i) (rows (complete_task rt now (Some i) d)) =
           Some (r\<lparr>completed := Some 1, completed_at := SText (isoformat rt now)\<rparr>)"
proof -
  let ?f = "\<lambda>x. if task_id x = i
                     then x\<lparr>completed := Some 1, completed_at := SText (isoformat rt now)\<rparr>
                     else x"
  have i: "task_id r = i" using find_SomeD[OF assms(2)] .
  have "find (\<lambda>x. task_id x = i) (map ?f (rows d)) = map_option ?f (find (\<lambda>x. task_id x = i) (rows d))"
    by (rule find_map_id) simp
  then have f: "find (\<lambda>x. task_id x = i) (map ?f (rows d))
          = Some (r\<lparr>completed := Some 1, completed_at := SText (isoformat rt now)\<rparr>)"
    using assms i by simp
  show ?thesis
    using assms i f find_append_Some[OF f]
    by (simp add: complete_task_def get_selected_task_row_def handle_recurring_def
        complete_task_db_def add_task_def Let_def)
qed


lemma complete_task_others:
  assumes "db_ok d" "find (\<lambda>x. task_id x = i) (rows d) = Some r"
    "find (\<lambda>x. task_id x = j) (rows d) = Some r'" "j \<noteq> i"
  shows "find (\<lambda>x. task_id x = j) (rows (complete_task rt now (Some i) d)) = Some r'"
proof -
  let ?f = "\<lambda>x. if task_id x = i
                     then x\<lparr>completed := Some 1, completed_at := SText (isoformat rt now)\<rparr>
                     else x"
  have j: "task_id r' = j" using find_SomeD[OF assms(3)] .
  have i: "task_id r = i" using find_SomeD[OF assms(2)] .
  have "find (\<lambda>x. task_id x = j) (map ?f (rows d)) = map_option ?f (find (\<lambda>x. task_id x = j) (rows d))"
    by (rule find_map_id) simp
  then have f: "find (\<lambda>x. task_id x = j) (map ?f (rows d)) = Some r'"
    using assms j by simp
  show ?thesis
    using assms i f find_append_Some[OF f]
    by (simp add: complete_task_def get_selected_task_row_def handle_recurring_def
        complete_task_db_def add_task_def Let_def)
qed

text \<open>
  C2 (as amended).  Every complete operation on an existing task (the store working) sets
  \<open>completed\<close> to 1 and \<open>completed_at\<close> to the time of that call, whatever they were
  before: also on a task that is already completed the timestamp is overwritten.  All other
  tasks keep their row.
\<close>

theorem complete_restamps:
  assumes "db_ok d" "find (\<lambda>x. task_id x = i) (rows d) = Some r"
  shows "find (\<lambda>x. task_id x = i) (rows (complete_task rt now (Some i) d)) =
           Some (r\<lparr>completed := Some 1, completed_at := SText (isoformat rt now)\<rparr>)
         \<and> (\<forall>j r'. j \<noteq> i \<and> find (\<lambda>x. task_id x = j) (rows d) = Some r' \<longrightarrow>
               find (\<lambda>x. task_id x = j) (rows (complete_task rt now (Some i) d)) = Some r')"
  using assms complete_task_find[OF assms] complete_task_others[OF assms] by blast

theorem complete_restamps_witness:
  "find (\<lambda>x. task_id x = 1)
     (rows (complete_task rt_sample 63839696400000000 (Some 1)
              \<lparr>rows = [task_daily, task_done\<lparr>task_id := 2\<rparr>], db_ok = True\<rparr>))
   = Some (task_daily\<lparr>completed := Some 1, completed_at := SText ''2024-01-01T09:00:00''\<rparr>)
   \<and> find (\<lambda>x. task_id x = 2)
     (rows (complete_task rt_sample 63839696400000000 (Some 1)
              \<lparr>rows = [task_daily, task_done\<lparr>task_id := 2\<rparr>], db_ok = True\<rparr>))
   = Some (task_done\<lparr>task_id := 2\<rparr>)"
  using complete_restamps[of "\<lparr>rows = [task_daily, task_done\<lparr>task_id := 2\<rparr>], db_ok = True\<rparr>"
      1 task_daily rt_sample 63839696400000000]
  by (simp add: task_daily_def task_done_def rt_sample_def)

text \<open>
  That \<open>completed_at\<close> is set only once fails: a task completed at 2024-01-01T09:00:00 and
  completed again a day later carries the later time.
\<close>

theorem complete_restamps_counterexample:
  "completed task_done = Some 1
   \<and> completed_at task_done = SText ''2024-01-01T09:00:00''
   \<and> map completed_at
        (rows (complete_task rt_sample 63839782800000000 (Some 1)
                 \<lparr>rows = [task_done], db_ok = True\<rparr>))
     = [SText ''2024-01-02T09:00:00'']"
  by (simp add: task_done_def task_daily_def rt_sample_def complete_task_def
      get_selected_task_row_def handle_recurring_def complete_task_db_def)

text \<open>
  C3 (as amended).  When a task with a recurrence is completed and the computation of the
  next due date fails, the completion of the original still succeeds and exactly one
  successor is created all the same: it clones the task and has no due date.
\<close>

theorem failed_due_still_spawns:
  assumes "db_ok d" "find (\<lambda>x. task_id x = i) (rows d) = Some r"
    "sql_truthy (recurring r)" "recurring r \<noteq> SText ''None''"
    "next_due_try rt now (duedate r) (recurring r) = Inl e"
  shows "rows (complete_task rt now (Some i) d) =
           map (\<lambda>x. if task_id x = i
                     then x\<lparr>completed := Some 1, completed_at := SText (isoformat rt now)\<rparr>
                     else x) (rows d)
           @ [\<lparr>task_id = new_id (rows d), title = title r, category = category r,
               completed = Some 0, duedate = SNull,
               subtasks = subtasks r, started_at = SText (isoformat rt now),
               completed_at = SNull, priority = priority r, tags = tags r,
               recurring = recurring r, pomodoros = Some 0, last_pomodoro_at = SNull\<rparr>]
         \<and> find (\<lambda>x. task_id x = i) (rows (complete_task rt now (Some i) d)) =
           Some (r\<lparr>completed := Some 1, completed_at := SText (isoformat rt now)\<rparr>)"
  using complete_task_rows[OF assms(1-4), of rt now] complete_task_find[OF assms(1,2), of rt now]
    assms(5) by simp

theorem failed_due_still_spawns_witness:
  "rows (complete_task rt_sample 63839696400000000 (Some 1)
           \<lparr>rows = [task_bad_due], db_ok = True\<rparr>) =
     [task_bad_due\<lparr>completed := Some 1, completed_at := SText ''2024-01-01T09:00:00''\<rparr>,
      task_bad_due\<lparr>task_id := 2, duedate := SNull, started_at := SText ''2024-01-01T09:00:00'',
                   pomodoros := Some 0\<rparr>]"
  using failed_due_still_spawns[of "\<lparr>rows = [task_bad_due], db_ok = True\<rparr>" 1 task_bad_due
      rt_sample 63839696400000000 ValueError]
  by (simp add: task_bad_due_def task_daily_def rt_sample_def next_due_try_def new_id_def)

text \<open>
  That no successor is created fails: the due date \<^verbatim>\<open>tomorrow\<close> does not parse, and the
  table has one more row after the completion.
\<close>

theorem failed_due_still_spawns_counterexample:
  "next_due_try rt_sample 63839696400000000 (duedate task_bad_due) (recurring task_bad_due)
     = Inl ValueError
   \<and> length (rows (complete_task rt_sample 63839696400000000 (Some 1)
                     \<lparr>rows = [task_bad_due], db_ok = True\<rparr>))
     = length (rows \<lparr>rows = [task_bad_due], db_ok = True\<rparr>) + 1"
  by (simp add: task_bad_due_def task_daily_def rt_sample_def next_due_try_def
      complete_task_def get_selected_task_row_def handle_recurring_def complete_task_db_def
      add_task_def)

lemma next_due_ok:
  assumes "recurring r = SText ''Daily'' \<and> k = 1 \<or> recurring r = SText ''Weekly'' \<and> k = 7"
    "(\<exists>D. duedate r = SText D \<and> D \<noteq> []
           \<and> strptime rt (takeWhile (\<lambda>c. c \<noteq> CHR ''.'') D) = Some base)
     \<or> (\<not> sql_truthy (duedate r) \<and> base = now)"
    "0 \<le> base + k * us_per_day" "base + k * us_per_day < datetime_end"
  shows "next_due_try rt now (duedate r) (recurring r)
           = Inr (SText (isoformat rt (base + k * us_per_day)))"
  using assms by (auto simp: next_due_try_def add_days_def Let_def)

text \<open>
  C4 (as amended).  Completing a task (the store working) with recurrence Daily (\<open>k = 1\<close>)
  or Weekly (\<open>k = 7\<close>) whose due date, cut at its first dot, parses to \<open>base\<close>, or that has
  no due date (\<open>base = now\<close>), where \<open>base\<close> plus \<open>k\<close> days is still a date, appends exactly
  one row: a fresh id, the due date \<open>base\<close> plus \<open>k\<close> days, title, category, subtasks,
  priority, tags and recurrence of the original, \<open>completed = 0\<close> and \<open>pomodoros = 0\<close>.  The
  original is found completed, with its other columns, the due date among them, as they
  were.
\<close>

theorem recurring_successor:
  assumes "db_ok d" "find (\<lambda>x. task_id x = i) (rows d) = Some r"
    "recurring r = SText ''Daily'' \<and> k = 1 \<or> recurring r = SText ''Weekly'' \<and> k = 7"
    "(\<exists>D. duedate r = SText D \<and> D \<noteq> []
           \<and> strptime rt (takeWhile (\<lambda>c. c \<noteq> CHR ''.'') D) = Some base)
     \<or> (\<not> sql_truthy (duedate r) \<and> base = now)"
    "0 \<le> base + k * us_per_day" "base + k * us_per_day < datetime_end"
  shows "rows (complete_task rt now (Some i) d) =
           map (\<lambda>x. if task_id x = i
                     then x\<lparr>completed := Some 1, completed_at := SText (isoformat rt now)\<rparr>
                     else x) (rows d)
           @ [\<lparr>task_id = new_id (rows d), title = title r, category = category r,
               completed = Some 0,
               duedate = SText (isoformat rt (base + k * us_per_day)),
               subtasks = subtasks r, started_at = SText (isoformat rt now),
               completed_at = SNull, priority = priority r, tags = tags r,
               recurring = recurring r, pomodoros = Some 0, last_pomodoro_at = SNull\<rparr>]
         \<and> new_id (rows d) \<notin> task_id ` set (rows d)
         \<and> find (\<lambda>x. task_id x = i) (rows (complete_task rt now (Some i) d)) =
           Some (r\<lparr>completed := Some 1, completed_at := SText (isoformat rt now)\<rparr>)"
proof -
  have t: "sql_truthy (recurring r)" "recurring r \<noteq> SText ''None''"
    using assms(3) by auto
  show ?thesis
    using complete_task_rows[OF assms(1,2) t, of rt now] complete_task_find[OF assms(1,2), of rt now]
      next_due_ok[OF assms(3-6)] new_id_fresh[of "rows d"] by simp
qed

theorem recurring_successor_witness:
  "rows (complete_task rt_sample 63839696400000000 (Some 1)
           \<lparr>rows = [task_daily], db_ok = True\<rparr>) =
     [task_daily\<lparr>completed := Some 1, completed_at := SText ''2024-01-01T09:00:00''\<rparr>,
      task_daily\<lparr>task_id := 2, duedate := SText ''2024-01-02T09:00:00'',
                 started_at := SText ''2024-01-01T09:00:00'', pomodoros := Some 0\<rparr>]
   \<and> map duedate (rows (complete_task rt_sample 63839696400000000 (Some 1)
           \<lparr>rows = [task_daily\<lparr>recurring := SText ''Weekly''\<rparr>], db_ok = True\<rparr>)) =
     [SText ''2024-01-01T09:00:00'', SText ''2024-01-08T09:00:00'']
   \<and> map duedate (rows (complete_task rt_sample 63839696400000000 (Some 1)
           \<lparr>rows = [task_daily\<lparr>duedate := SNull\<rparr>], db_ok = True\<rparr>)) =
     [SNull, SText ''2024-01-02T09:00:00'']"
  using recurring_successor[of "\<lparr>rows = [task_daily], db_ok = True\<rparr>" 1 task_daily 1
      rt_sample 63839696400000000 63839696400000000]
    recurring_successor[of "\<lparr>rows = [task_daily\<lparr>recurring := SText ''Weekly''\<rparr>], db_ok = True\<rparr>"
      1 "task_daily\<lparr>recurring := SText ''Weekly''\<rparr>" 7
      rt_sample 63839696400000000 63839696400000000]
    recurring_successor[of "\<lparr>rows = [task_daily\<lparr>duedate := SNull\<rparr>], db_ok = True\<rparr>"
      1 "task_daily\<lparr>duedate := SNull\<rparr>" 1
      rt_sample 63839696400000000 63839696400000000]
  by (simp add: task_daily_def rt_sample_def new_id_def us_per_day_def datetime_end_def)

text \<open>
  For every parseable due date, as the claim states it, the new due date is not always the
  old one plus the interval: a due date with a fraction of a second loses the fraction
  (2024-01-01T09:00:00.500000 gives 2024-01-02T09:00:00), and a due date on the last day of
  the year 9999 has no next day as a \<^verbatim>\<open>datetime\<close>, so that the successor gets no due date.
\<close>

theorem recurring_successor_counterexample:
  "map duedate (rows (complete_task rt_sample 63839696400000000 (Some 1)
           \<lparr>rows = [task_daily\<lparr>duedate := SText ''2024-01-01T09:00:00.500000''\<rparr>],
            db_ok = True\<rparr>)) =
     [SText ''2024-01-01T09:00:00.500000'', SText ''2024-01-02T09:00:00'']
   \<and> map duedate (rows (complete_task rt_sample 63839696400000000 (Some 1)
           \<lparr>rows = [task_daily\<lparr>duedate := SText ''9999-12-31T09:00:00''\<rparr>],
            db_ok = True\<rparr>)) =
     [SText ''9999-12-31T09:00:00'', SNull]"
  by (simp add: task_daily_def rt_sample_def complete_task_def get_selected_task_row_def
      handle_recurring_def complete_task_db_def add_task_def next_due_try_def add_days_def
      us_per_day_def datetime_end_def)

section \<open>The cycle of phases\<close>

lemma notify_fields [simp]:
  "phase (notify_phase_change s) = phase s"
  "remaining (notify_phase_change s) = remaining s"
  "is_running (notify_phase_change s) = is_running s"
  "completed_focus_count (notify_phase_change s) = completed_focus_count s"
  "attached_task_id (notify_phase_change s) = attached_task_id s"
  "session_start_time (notify_phase_change s) = session_start_time s"
  "total_session_time (notify_phase_change s) = total_session_time s"
  "timer_active (notify_phase_change s) = timer_active s"
  "has_on_phase_change (notify_phase_change s) = has_on_phase_change s"
  "has_on_tick (notify_phase_change s) = has_on_tick s"
  "has_on_complete_cycle (notify_phase_change s) = has_on_complete_cycle s"
  by (simp_all add: notify_phase_change_def)

lemma reset_duration_fields [simp]:
  "phase (reset_phase_duration cfg s) = phase s"
  "is_running (reset_phase_duration cfg s) = is_running s"
  "completed_focus_count (reset_phase_duration cfg s) = completed_focus_count s"
  "attached_task_id (reset_phase_duration cfg s) = attached_task_id s"
  "session_start_time (reset_phase_duration cfg s) = session_start_time s"
  "total_session_time (reset_phase_duration cfg s) = total_session_time s"
  "timer_active (reset_phase_duration cfg s) = timer_active s"
  "has_on_phase_change (reset_phase_duration cfg s) = has_on_phase_change s"
  "has_on_tick (reset_phase_duration cfg s) = has_on_tick s"
  "has_on_complete_cycle (reset_phase_duration cfg s) = has_on_complete_cycle s"
  "events (reset_phase_duration cfg s) = events s"
  by (simp_all add: reset_phase_duration_def)

lemma start_count: "completed_focus_count (start cfg now s) = completed_focus_count s"
  by (simp add: start_def Let_def)

lemma pause_count: "completed_focus_count (fst (pause rt now s w)) = completed_focus_count s"
  by (simp add: pause_def Let_def split: option.splits)

lemma save_session_count:
  "completed_focus_count (fst (save_current_session rt now s w)) = completed_focus_count s"
  by (simp add: save_current_session_def Let_def split: option.splits)

lemma reset_count: "completed_focus_count (fst (reset rt cfg now s w)) = completed_focus_count s"
  by (simp add: reset_def Let_def split_beta pause_count split: option.splits)

lemma switch_count:
  "completed_focus_count (fst (switch_phase rt cfg now p s w)) = completed_focus_count s"
  by (simp add: switch_phase_def Let_def split_beta split: option.splits)

lemma guarded_increment:
  "(if tid \<noteq> None \<and> tid \<noteq> Some 0 then increment_pomodoro now_iso tid c d else Inr d)
     = increment_pomodoro now_iso tid c d"
  by (auto simp: increment_pomodoro_def)

lemma focus_block_fields:
  "case focus_end_block rt now s w of
     Inl e \<Rightarrow> True
   | Inr sw' \<Rightarrow>
       completed_focus_count (fst sw') = completed_focus_count s + 1
       \<and> phase (fst sw') = phase s
       \<and> timer_active (fst sw') = timer_active s
       \<and> is_running (fst sw') = is_running s
       \<and> attached_task_id (fst sw') = attached_task_id s
       \<and> has_on_phase_change (fst sw') = has_on_phase_change s
       \<and> has_on_complete_cycle (fst sw') = has_on_complete_cycle s
       \<and> db_connects (snd sw') = db_connects w"
  by (cases "increment_pomodoro (isoformat rt now) (attached_task_id s) (db_connects w) (tasks w)";
      cases "session_start_time s")
     (simp_all add: focus_end_block_def guarded_increment Let_def)

lemma phase_end_fields:
  "case handle_phase_end rt cfg now s w of
     Inl e \<Rightarrow> True
   | Inr sw' \<Rightarrow>
       completed_focus_count (fst sw') =
         completed_focus_count s + (if phase s = Focus then 1 else 0)
       \<and> phase (fst sw') =
           (if phase s = Focus
            then (if (completed_focus_count s + 1) mod long_break_every cfg = 0
                  then LongBreak else ShortBreak)
            else Focus)
       \<and> timer_active (fst sw') = timer_active s
       \<and> is_running (fst sw') = is_running s
       \<and> attached_task_id (fst sw') = attached_task_id s
       \<and> db_connects (snd sw') = db_connects w"
proof (cases "phase s = Focus")
  case False
  then show ?thesis by (simp add: handle_phase_end_def Let_def)
next
  case True
  show ?thesis
  proof (cases "focus_end_block rt now (s\<lparr>events := events s @ [Sound]\<rparr>) w")
    case (Inl e)
    then show ?thesis using True by (simp add: handle_phase_end_def Let_def)
  next
    case (Inr sw1)
    then show ?thesis
      using True focus_block_fields[where rt = rt and now = now
          and s = "s\<lparr>events := events s @ [Sound]\<rparr>" and w = w]
      by (simp add: handle_phase_end_def Let_def)
  qed
qed

lemma phase_end_result:
  assumes "handle_phase_end rt cfg now s w = Inr (s', w')"
  shows "completed_focus_count s' = completed_focus_count s + (if phase s = Focus then 1 else 0)"
    and "phase s' = (if phase s = Focus
                     then (if (completed_focus_count s + 1) mod long_break_every cfg = 0
                           then LongBreak else ShortBreak)
                     else Focus)"
  using phase_end_fields[where rt = rt and cfg = cfg and now = now and s = s and w = w] assms
  by simp_all

lemma increment_ok:
  assumes "\<forall>i. tid = Some i \<longrightarrow> i = 0 \<or> (connects \<and> sqlite_int i)"
  shows "\<exists>t. increment_pomodoro now_iso tid connects d = Inr t"
  using assms by (cases tid) (auto simp: increment_pomodoro_def)

lemma focus_block_ok:
  assumes "\<forall>i. attached_task_id s = Some i \<longrightarrow> i = 0 \<or> (db_connects w \<and> sqlite_int i)"
  shows "\<exists>sw'. focus_end_block rt now s w = Inr sw'"
proof -
  from increment_ok[OF assms] obtain t
    where "increment_pomodoro (isoformat rt now) (attached_task_id s) (db_connects w) (tasks w)
             = Inr t" by blast
  then show ?thesis by (simp add: focus_end_block_def guarded_increment Let_def)
qed

lemma phase_end_ok:
  assumes "long_break_every cfg \<noteq> 0"
    "\<forall>i. attached_task_id s = Some i \<longrightarrow> i = 0 \<or> (db_connects w \<and> sqlite_int i)"
  shows "\<exists>sw'. handle_phase_end rt cfg now s w = Inr sw'"
proof (cases "phase s = Focus")
  case False
  then show ?thesis by (simp add: handle_phase_end_def Let_def)
next
  case True
  from focus_block_ok[of "s\<lparr>events := events s @ [Sound]\<rparr>" w rt now] assms(2)
  obtain sw1 where "focus_end_block rt now (s\<lparr>events := events s @ [Sound]\<rparr>) w = Inr sw1"
    by auto
  then show ?thesis using True assms(1)
    using focus_block_fields[where rt = rt and now = now
          and s = "s\<lparr>events := events s @ [Sound]\<rparr>" and w = w]
    by (simp add: handle_phase_end_def Let_def)
qed

lemma step_count:
  assumes "step rt cfg x (s, w) = Inr (s', w')"
  shows "completed_focus_count s' =
           completed_focus_count s + (if phase_end_at x (s, w) \<and> phase s = Focus then 1 else 0)"
proof (cases "fst x")
  case Start
  then show ?thesis using assms by (auto simp: step_def phase_end_at_def start_count)
next
  case Pause
  then show ?thesis using assms pause_count[of rt "snd x" s w]
    by (auto simp: step_def phase_end_at_def)
next
  case Reset
  then show ?thesis using assms reset_count[of rt cfg "snd x" s w]
    by (auto simp: step_def phase_end_at_def)
next
  case (SwitchPhase p)
  then show ?thesis using assms switch_count[of rt cfg "snd x" p s w]
    by (auto simp: step_def phase_end_at_def)
next
  case (AttachTask i)
  then show ?thesis using assms by (auto simp: step_def phase_end_at_def attach_task_def)
next
  case SaveSession
  then show ?thesis using assms save_session_count[of rt "snd x" s w]
    by (auto simp: step_def phase_end_at_def)
next
  case Timeout
  show ?thesis
  proof (cases "timer_active s \<and> remaining s \<le> 0")
    case True
    then have "handle_phase_end rt cfg (snd x) s w = Inr (s', w')"
      using assms Timeout by (simp add: step_def tick_def)
    from phase_end_result(1)[OF this] True Timeout show ?thesis
      by (simp add: phase_end_at_def)
  next
    case False
    then show ?thesis using assms Timeout
      by (auto simp: step_def tick_def phase_end_at_def Let_def split: if_splits)
  qed
qed

lemma step_phase_end:
  assumes "step rt cfg x (s, w) = Inr (s', w')" "phase_end_at x (s, w)"
  shows "phase s' = (if phase s = Focus
                     then (if (completed_focus_count s + 1) mod long_break_every cfg = 0
                           then LongBreak else ShortBreak)
                     else Focus)"
proof -
  from assms have "handle_phase_end rt cfg (snd x) s w = Inr (s', w')"
    by (simp add: step_def tick_def phase_end_at_def)
  then show ?thesis by (rule phase_end_result(2))
qed

lemma start_frame: "attached_task_id (start cfg now s) = attached_task_id s"
  by (simp add: start_def Let_def)

lemma pause_frame:
  "attached_task_id (fst (pause rt now s w)) = attached_task_id s
   \<and> db_connects (snd (pause rt now s w)) = db_connects w"
  by (simp add: pause_def Let_def split: option.splits)

lemma save_session_frame:
  "attached_task_id (fst (save_current_session rt now s w)) = attached_task_id s
   \<and> db_connects (snd (save_current_session rt now s w)) = db_connects w"
  by (simp add: save_current_session_def Let_def split: option.splits)

lemma reset_frame:
  "attached_task_id (fst (reset rt cfg now s w)) = attached_task_id s
   \<and> db_connects (snd (reset rt cfg now s w)) = db_connects w"
  by (simp add: reset_def Let_def split_beta pause_frame split: option.splits)

lemma switch_frame:
  "attached_task_id (fst (switch_phase rt cfg now p s w)) = attached_task_id s
   \<and> db_connects (snd (switch_phase rt cfg now p s w)) = db_connects w"
  by (simp add: switch_phase_def Let_def split_beta split: option.splits)

lemma tick_frame:
  "case tick rt cfg now s w of
     Inl e \<Rightarrow> True
   | Inr sw' \<Rightarrow> timer_active (fst sw') = timer_active s \<and> is_running (fst sw') = is_running s
       \<and> attached_task_id (fst sw') = attached_task_id s
       \<and> db_connects (snd sw') = db_connects w"
proof (cases "remaining s \<le> 0")
  case True
  then show ?thesis
    using phase_end_fields[where rt = rt and cfg = cfg and now = now and s = s and w = w]
    by (auto simp: tick_def split: sum.splits)
next
  case False
  then show ?thesis by (simp add: tick_def Let_def)
qed

lemma step_frame:
  assumes "step rt cfg x (s, w) = Inr (s', w')"
  shows "db_connects w' = db_connects w"
    and "attached_task_id s' = attached_task_id s
         \<or> (\<exists>i. fst x = AttachTask i \<and> attached_task_id s' = Some i)"
proof -
  have "db_connects w' = db_connects w
        \<and> (attached_task_id s' = attached_task_id s
            \<or> (\<exists>i. fst x = AttachTask i \<and> attached_task_id s' = Some i))"
  proof (cases "fst x")
    case Start
    then show ?thesis using assms by (auto simp: step_def start_frame)
  next
    case Pause
    then show ?thesis using assms pause_frame[of rt "snd x" s w] by (auto simp: step_def)
  next
    case Reset
    then show ?thesis using assms reset_frame[of rt cfg "snd x" s w] by (auto simp: step_def)
  next
    case (SwitchPhase p)
    then show ?thesis using assms switch_frame[of rt cfg "snd x" p s w]
      by (auto simp: step_def)
  next
    case (AttachTask i)
    then show ?thesis using assms by (auto simp: step_def attach_task_def)
  next
    case SaveSession
    then show ?thesis using assms save_session_frame[of rt "snd x" s w]
      by (auto simp: step_def)
  next
    case Timeout
    then show ?thesis
      using assms tick_frame[where rt = rt and cfg = cfg and now = "snd x" and s = s and w = w]
      by (auto simp: step_def split: if_splits)
  qed
  then show "db_connects w' = db_connects w"
    and "attached_task_id s' = attached_task_id s
         \<or> (\<exists>i. fst x = AttachTask i \<and> attached_task_id s' = Some i)" by simp_all
qed

lemma step_ok:
  assumes "long_break_every cfg \<noteq> 0"
    "\<forall>i. attached_task_id s = Some i \<longrightarrow> i = 0 \<or> (db_connects w \<and> sqlite_int i)"
  shows "\<exists>sw'. step rt cfg x (s, w) = Inr sw'"
  using phase_end_ok[OF assms, of rt "snd x"]
  by (cases "fst x") (auto simp: step_def tick_def Let_def)

lemma run_ok:
  assumes "long_break_every cfg \<noteq> 0"
  shows "\<forall>i. attached_task_id s = Some i \<longrightarrow> i = 0 \<or> (db_connects w \<and> sqlite_int i) \<Longrightarrow>
         \<forall>x \<in> set ops. \<forall>i. fst x = AttachTask i \<longrightarrow> i = 0 \<or> (db_connects w \<and> sqlite_int i) \<Longrightarrow>
         \<exists>sw'. run rt cfg ops (s, w) = Inr sw'"
proof (induction ops arbitrary: s w)
  case Nil
  show ?case by simp
next
  case (Cons x xs)
  from step_ok[OF assms Cons.prems(1), of rt x] obtain s1 w1
    where st: "step rt cfg x (s, w) = Inr (s1, w1)" by (metis surj_pair)
  note f = step_frame[OF st]
  have a: "\<forall>i. attached_task_id s1 = Some i \<longrightarrow> i = 0 \<or> (db_connects w1 \<and> sqlite_int i)"
    using f Cons.prems by auto
  have b: "\<forall>x \<in> set xs. \<forall>i. fst x = AttachTask i \<longrightarrow> i = 0 \<or> (db_connects w1 \<and> sqlite_int i)"
    using f(1) Cons.prems(2) by simp
  from Cons.IH[OF a b] show ?case using st by simp
qed

lemma cadence:
  assumes "long_break_every cfg \<noteq> 0"
  shows "k < length (after_focus (phase_ends rt cfg ops (s, w))) \<Longrightarrow>
         after_focus (phase_ends rt cfg ops (s, w)) ! k =
           (if (completed_focus_count s + int k + 1) mod long_break_every cfg = 0
            then LongBreak else ShortBreak)"
proof (induction ops arbitrary: s w k)
  case Nil
  then show ?case by (simp add: after_focus_def)
next
  case (Cons x xs)
  show ?case
  proof (cases "step rt cfg x (s, w)")
    case (Inl e)
    then show ?thesis using Cons.prems by (simp add: after_focus_def)
  next
    case (Inr sw1)
    then obtain s1 w1 where st: "step rt cfg x (s, w) = Inr (s1, w1)" by (cases sw1) simp
    note c = step_count[OF st]
    show ?thesis
    proof (cases "phase_end_at x (s, w) \<and> phase s = Focus")
      case True
      then have pe: "phase_end_at x (s, w)" and f: "phase s = Focus" by simp_all
      have L: "after_focus (phase_ends rt cfg (x # xs) (s, w)) =
                 phase s1 # after_focus (phase_ends rt cfg xs (s1, w1))"
        using st pe f by (simp add: after_focus_def)
      show ?thesis
      proof (cases k)
        case 0
        then show ?thesis using L step_phase_end[OF st pe] f by simp
      next
        case (Suc j)
        then have "j < length (after_focus (phase_ends rt cfg xs (s1, w1)))"
          using Cons.prems L by simp
        from Cons.IH[OF this] show ?thesis using L Suc c True
          by (simp add: algebra_simps)
      qed
    next
      case False
      then have L: "after_focus (phase_ends rt cfg (x # xs) (s, w)) =
                 after_focus (phase_ends rt cfg xs (s1, w1))"
        using st by (auto simp: after_focus_def)
      then have "k < length (after_focus (phase_ends rt cfg xs (s1, w1)))"
        using Cons.prems by simp
      from Cons.IH[OF this] show ?thesis using L c False by simp
    qed
  qed
qed

lemma breaks_lead_to_focus:
  "p \<in> set (after_break (phase_ends rt cfg ops (s, w))) \<Longrightarrow> p = Focus"
proof (induction ops arbitrary: s w)
  case Nil
  then show ?case by (simp add: after_break_def)
next
  case (Cons x xs)
  show ?case
  proof (cases "step rt cfg x (s, w)")
    case (Inl e)
    then show ?thesis using Cons.prems by (simp add: after_break_def)
  next
    case (Inr sw1)
    then obtain s1 w1 where st: "step rt cfg x (s, w) = Inr (s1, w1)" by (cases sw1) simp
    show ?thesis
    proof (cases "phase_end_at x (s, w) \<and> phase s \<noteq> Focus")
      case True
      then have "after_break (phase_ends rt cfg (x # xs) (s, w)) =
                 phase s1 # after_break (phase_ends rt cfg xs (s1, w1))"
        using st by (simp add: after_break_def)
      moreover have "phase s1 = Focus" using step_phase_end[OF st] True by simp
      ultimately show ?thesis using Cons by auto
    next
      case False
      then have "after_break (phase_ends rt cfg (x # xs) (s, w)) =
                 after_break (phase_ends rt cfg xs (s1, w1))"
        using st by (auto simp: after_break_def)
      then show ?thesis using Cons by auto
    qed
  qed
qed

text \<open>
  C1.  Take a freshly constructed engine, settings with \<open>long_break_every = N\<close>, \<open>N \<ge> 1\<close>,
  and any run without reset and without manual phase switch.  For every \<open>k \<ge> 1\<close> the phase
  entered at the \<open>k\<close>-th end of a Focus phase is LongBreak exactly when \<open>k mod N = 0\<close> and
  ShortBreak otherwise; and the phase entered at every end of a break is Focus.  The run
  comes to its end without an exception when every task attached in it has the id 0 (which
  counts as no task) or can be credited: the store can be opened and the id is a 64-bit
  integer.  Otherwise the end of a Focus phase can raise, and no phase is entered there.
\<close>

theorem long_break_cadence:
  assumes "1 \<le> long_break_every cfg"
    "\<forall>x \<in> set ops. fst x \<noteq> Reset \<and> (\<forall>p. fst x \<noteq> SwitchPhase p)"
  shows "(\<forall>k. 1 \<le> k \<and> k \<le> length (after_focus (phase_ends rt cfg ops (new_manager cfg a b c, w)))
            \<longrightarrow> after_focus (phase_ends rt cfg ops (new_manager cfg a b c, w)) ! (k - 1)
                = (if int k mod long_break_every cfg = 0 then LongBreak else ShortBreak))
       \<and> (\<forall>p \<in> set (after_break (phase_ends rt cfg ops (new_manager cfg a b c, w))). p = Focus)
       \<and> ((\<forall>x \<in> set ops. \<forall>i. fst x = AttachTask i \<longrightarrow> i = 0 \<or> (db_connects w \<and> sqlite_int i))
            \<longrightarrow> (\<exists>sw'. run rt cfg ops (new_manager cfg a b c, w) = Inr sw'))"
proof -
  have n: "long_break_every cfg \<noteq> 0" using assms(1) by simp
  have z: "completed_focus_count (new_manager cfg a b c) = 0" by (simp add: new_manager_def)
  have t: "\<forall>i. attached_task_id (new_manager cfg a b c) = Some i \<longrightarrow>
               i = 0 \<or> (db_connects w \<and> sqlite_int i)"
    by (simp add: new_manager_def)
  { fix k assume k: "1 \<le> k" "k \<le> length (after_focus (phase_ends rt cfg ops (new_manager cfg a b c, w)))"
    then have "k - 1 < length (after_focus (phase_ends rt cfg ops (new_manager cfg a b c, w)))" by simp
    from cadence[OF n this] z k
    have "after_focus (phase_ends rt cfg ops (new_manager cfg a b c, w)) ! (k - 1)
                = (if int k mod long_break_every cfg = 0 then LongBreak else ShortBreak)"
      by (simp add: of_nat_diff algebra_simps) }
  then show ?thesis using run_ok[OF n t] breaks_lead_to_focus by blast
qed

lemma plain_ends:
  "phase_ends rt_sample cfg_short run_plain (new_manager cfg_short True True False, world_sample)
     = [(Focus, ShortBreak), (ShortBreak, Focus), (Focus, LongBreak)]"
  by code_simp

lemma reset_ends:
  "phase_ends rt_sample cfg_short run_with_reset (new_manager cfg_short True True False, world_sample)
     = [(Focus, ShortBreak), (Focus, LongBreak)]"
  by code_simp


lemma plain_run_ok:
  "\<forall>x \<in> set run_plain. \<forall>i. fst x = AttachTask i \<longrightarrow>
      i = 0 \<or> (db_connects world_sample \<and> sqlite_int i)"
  by (auto simp: run_plain_def timeouts_def)

lemma attached_run_ok:
  "\<forall>x \<in> set run_attached. \<forall>i. fst x = AttachTask i \<longrightarrow>
      i = 0 \<or> (db_connects world_sample \<and> sqlite_int i)"
  by (auto simp: run_attached_def run_plain_def timeouts_def world_sample_def sqlite_int_def)

lemma attached_ends:
  "phase_ends rt_sample cfg_short run_attached (new_manager cfg_short True True False, world_sample)
     = [(Focus, ShortBreak), (ShortBreak, Focus), (Focus, LongBreak)]"
  by code_simp

text \<open>With the task attached and a store that cannot be opened, the first end of a Focus
  phase raises, and no phase is entered.\<close>

lemma attached_run_raises:
  "run rt_sample cfg_short run_attached
     (new_manager cfg_short True True False, world_sample\<lparr>db_connects := False\<rparr>)
     = Inl UnboundLocalError
   \<and> phase_ends rt_sample cfg_short run_attached
       (new_manager cfg_short True True False, world_sample\<lparr>db_connects := False\<rparr>) = []"
  by code_simp

theorem long_break_cadence_witness:
  "length (after_focus (phase_ends rt_sample cfg_short run_plain
             (new_manager cfg_short True True False, world_sample))) = 2
   \<and> after_focus (phase_ends rt_sample cfg_short run_plain
             (new_manager cfg_short True True False, world_sample)) ! 0 = ShortBreak
   \<and> after_focus (phase_ends rt_sample cfg_short run_plain
             (new_manager cfg_short True True False, world_sample)) ! 1 = LongBreak
   \<and> after_break (phase_ends rt_sample cfg_short run_plain
             (new_manager cfg_short True True False, world_sample)) = [Focus]
   \<and> (\<exists>sw'. run rt_sample cfg_short run_plain
               (new_manager cfg_short True True False, world_sample) = Inr sw')
   \<and> after_focus (phase_ends rt_sample cfg_short run_attached
             (new_manager cfg_short True True False, world_sample)) ! 1 = LongBreak
   \<and> (\<exists>sw'. run rt_sample cfg_short run_attached
               (new_manager cfg_short True True False, world_sample) = Inr sw')"
proof -
  have h1: "1 \<le> long_break_every cfg_short"
    by (simp add: cfg_short_def set_from_minutes_def)
  have h2: "\<forall>x \<in> set run_plain. fst x \<noteq> Reset \<and> (\<forall>p. fst x \<noteq> SwitchPhase p)"
    by (auto simp: run_plain_def timeouts_def)
  have h3: "\<forall>x \<in> set run_attached. fst x \<noteq> Reset \<and> (\<forall>p. fst x \<noteq> SwitchPhase p)"
    by (auto simp: run_attached_def run_plain_def timeouts_def)
  note c = long_break_cadence[OF h1 h2, of rt_sample True True False world_sample]
  note d = long_break_cadence[OF h1 h3, of rt_sample True True False world_sample]
  have n: "long_break_every cfg_short = 2"
    by (simp add: cfg_short_def set_from_minutes_def)
  have l: "length (after_focus (phase_ends rt_sample cfg_short run_plain
             (new_manager cfg_short True True False, world_sample))) = 2"
    by (simp add: plain_ends after_focus_def)
  have l': "length (after_focus (phase_ends rt_sample cfg_short run_attached
             (new_manager cfg_short True True False, world_sample))) = 2"
    by (simp add: attached_ends after_focus_def)
  have b: "after_break (phase_ends rt_sample cfg_short run_plain
             (new_manager cfg_short True True False, world_sample)) = [Focus]"
    by (simp add: plain_ends after_break_def)
  from c l have "after_focus (phase_ends rt_sample cfg_short run_plain
             (new_manager cfg_short True True False, world_sample)) ! (1 - 1) =
        (if int 1 mod long_break_every cfg_short = 0 then LongBreak else ShortBreak)"
    by (metis one_le_numeral order_refl)
  moreover from c l have "after_focus (phase_ends rt_sample cfg_short run_plain
             (new_manager cfg_short True True False, world_sample)) ! (2 - 1) =
        (if int 2 mod long_break_every cfg_short = 0 then LongBreak else ShortBreak)"
    by (metis one_le_numeral order_refl)
  moreover from d l' have "after_focus (phase_ends rt_sample cfg_short run_attached
             (new_manager cfg_short True True False, world_sample)) ! (2 - 1) =
        (if int 2 mod long_break_every cfg_short = 0 then LongBreak else ShortBreak)"
    by (metis one_le_numeral order_refl)
  moreover from c plain_run_ok
  have "\<exists>sw'. run rt_sample cfg_short run_plain
               (new_manager cfg_short True True False, world_sample) = Inr sw'"
    by blast
  moreover from d attached_run_ok
  have "\<exists>sw'. run rt_sample cfg_short run_attached
               (new_manager cfg_short True True False, world_sample) = Inr sw'"
    by blast
  ultimately show ?thesis using l b n by simp
qed

text \<open>
  C9.  \<open>completed_focus_count\<close> never decreases: a step adds 1 to it when it is the end of a
  Focus phase and leaves it as it is otherwise; \<^verbatim>\<open>start\<close>, \<^verbatim>\<open>pause\<close>, \<^verbatim>\<open>reset\<close> and
  \<^verbatim>\<open>switch_phase\<close> do not change it.  So from any state, in any run (resets and manual
  switches included), the \<open>k\<close>-th end of a Focus phase enters LongBreak exactly when the
  count at the beginning plus \<open>k\<close> is a multiple of \<open>long_break_every\<close>.
\<close>

theorem focus_count_monotone:
  "(step rt cfg x (s, w) = Inr (s', w') \<longrightarrow>
      completed_focus_count s' =
        completed_focus_count s + (if phase_end_at x (s, w) \<and> phase s = Focus then 1 else 0)
      \<and> completed_focus_count s \<le> completed_focus_count s')
   \<and> completed_focus_count (start cfg now s) = completed_focus_count s
   \<and> completed_focus_count (fst (pause rt now s w)) = completed_focus_count s
   \<and> completed_focus_count (fst (reset rt cfg now s w)) = completed_focus_count s
   \<and> completed_focus_count (fst (switch_phase rt cfg now p s w)) = completed_focus_count s
   \<and> (long_break_every cfg \<noteq> 0 \<longrightarrow>
        (\<forall>k. 1 \<le> k \<and> k \<le> length (after_focus (phase_ends rt cfg ops (s, w))) \<longrightarrow>
           after_focus (phase_ends rt cfg ops (s, w)) ! (k - 1) =
             (if (completed_focus_count s + int k) mod long_break_every cfg = 0
              then LongBreak else ShortBreak)))"
proof (intro conjI impI allI)
  assume st: "step rt cfg x (s, w) = Inr (s', w')"
  from step_count[OF st]
  show "completed_focus_count s' =
        completed_focus_count s + (if phase_end_at x (s, w) \<and> phase s = Focus then 1 else 0)" .
  then show "completed_focus_count s \<le> completed_focus_count s'" by simp
next
  show "completed_focus_count (start cfg now s) = completed_focus_count s" by (rule start_count)
  show "completed_focus_count (fst (pause rt now s w)) = completed_focus_count s"
    by (rule pause_count)
  show "completed_focus_count (fst (reset rt cfg now s w)) = completed_focus_count s"
    by (rule reset_count)
  show "completed_focus_count (fst (switch_phase rt cfg now p s w)) = completed_focus_count s"
    by (rule switch_count)
next
  fix k
  assume n: "long_break_every cfg \<noteq> 0"
    and k: "1 \<le> k \<and> k \<le> length (after_focus (phase_ends rt cfg ops (s, w)))"
  then have "k - 1 < length (after_focus (phase_ends rt cfg ops (s, w)))" by auto
  from cadence[OF n this] k
  show "after_focus (phase_ends rt cfg ops (s, w)) ! (k - 1) =
             (if (completed_focus_count s + int k) mod long_break_every cfg = 0
              then LongBreak else ShortBreak)"
    by (simp add: of_nat_diff algebra_simps)
qed

lemma focus_due_step:
  "step rt_sample cfg_short (Timeout, 63839696461000000) (focus_due, world_sample) =
     Inr (focus_due\<lparr>phase := ShortBreak, remaining := 60, completed_focus_count := 1,
                     session_start_time := None,
                     events := [Sound, PhaseChange ShortBreak 60]\<rparr>,
          world_sample\<lparr>study := \<lparr>study_file = Json (JObj [(''total_seconds'', JInt 61)]),
                                  wmode = WriteOk\<rparr>\<rparr>)"
  by code_simp

theorem focus_count_monotone_witness:
  "completed_focus_count
     (focus_due\<lparr>phase := ShortBreak, remaining := 60, completed_focus_count := 1,
                session_start_time := None, events := [Sound, PhaseChange ShortBreak 60]\<rparr>)
     = completed_focus_count focus_due + 1
   \<and> after_focus (phase_ends rt_sample cfg_short run_with_reset
                    (new_manager cfg_short True True False, world_sample)) ! (2 - 1) = LongBreak"
proof -
  note m = focus_count_monotone[of rt_sample cfg_short "(Timeout, 63839696461000000)"
      focus_due world_sample
      "focus_due\<lparr>phase := ShortBreak, remaining := 60, completed_focus_count := 1,
                 session_start_time := None, events := [Sound, PhaseChange ShortBreak 60]\<rparr>"
      "world_sample\<lparr>study := \<lparr>study_file = Json (JObj [(''total_seconds'', JInt 61)]),
                                  wmode = WriteOk\<rparr>\<rparr>"]
  have pe: "phase_end_at (Timeout, 63839696461000000) (focus_due, world_sample)"
    by (simp add: phase_end_at_def focus_due_def)
  have f: "phase focus_due = Focus" by (simp add: focus_due_def new_manager_def)
  have 1: "completed_focus_count
     (focus_due\<lparr>phase := ShortBreak, remaining := 60, completed_focus_count := 1,
                session_start_time := None, events := [Sound, PhaseChange ShortBreak 60]\<rparr>)
     = completed_focus_count focus_due + 1"
    using m focus_due_step pe f by simp
  note c = focus_count_monotone[of rt_sample cfg_short _ "new_manager cfg_short True True False"
      world_sample _ _ _ _ run_with_reset]
  have n: "long_break_every cfg_short = 2"
    by (simp add: cfg_short_def set_from_minutes_def)
  have l: "length (after_focus (phase_ends rt_sample cfg_short run_with_reset
             (new_manager cfg_short True True False, world_sample))) = 2"
    by (simp add: reset_ends after_focus_def)
  have z: "completed_focus_count (new_manager cfg_short True True False) = 0"
    by (simp add: new_manager_def)
  from c n l have "after_focus (phase_ends rt_sample cfg_short run_with_reset
             (new_manager cfg_short True True False, world_sample)) ! (2 - 1) =
        (if (completed_focus_count (new_manager cfg_short True True False) + int 2)
              mod long_break_every cfg_short = 0 then LongBreak else ShortBreak)"
    by (metis one_le_numeral order_refl zero_neq_numeral)
  then have 2: "after_focus (phase_ends rt_sample cfg_short run_with_reset
                    (new_manager cfg_short True True False, world_sample)) ! (2 - 1) = LongBreak"
    using n z by simp
  from 1 2 show ?thesis by simp
qed

section \<open>Adding to the study time\<close>

text \<open>What \<^verbatim>\<open>add_study_time\<close> does to the counter when the write succeeds and the new total
  is a non-negative integer that is exactly a double: the file holds the old total plus the
  amount, and that is what is read back.\<close>

lemma load_wmode: "wmode (snd (load_study_time rt d)) = wmode d"
  by (simp add: load_study_time_def load_body_def save_study_time_def write_json_def Let_def
      split: file_state.splits sum.splits bool.splits option.splits write_mode.splits)

lemma add_study_time_effect:
  assumes "wmode d = WriteOk" "0 \<le> fst (load_study_time rt d) + n"
    "float_of_int (fst (load_study_time rt d) + n)
       = Inr (Finite (of_int (fst (load_study_time rt d) + n)))"
  shows "fst (add_study_time rt n d) = fst (load_study_time rt d) + n
       \<and> study_file (snd (add_study_time rt n d))
           = Json (JObj [(''total_seconds'', JInt (fst (load_study_time rt d) + n))])
       \<and> fst (load_study_time rt (snd (add_study_time rt n d))) = fst (load_study_time rt d) + n"
proof -
  obtain cur d1 where l: "load_study_time rt d = (cur, d1)" by (cases "load_study_time rt d")
  then have w: "wmode d1 = WriteOk" using load_wmode[of rt d] assms(1) by simp
  have a: "add_study_time rt n d = (cur + n, save_study_time (cur + n) d1)"
    using l by (simp add: add_study_time_def Let_def)
  have s: "save_study_time (cur + n) d1 =
             d1\<lparr>study_file := Json (JObj [(''total_seconds'', JInt (cur + n))])\<rparr>"
    using assms l w by (intro save_exact) simp_all
  have "load_study_time rt (d1\<lparr>study_file := Json (JObj [(''total_seconds'', JInt (cur + n))])\<rparr>)
          = (cur + n, d1\<lparr>study_file := Json (JObj [(''total_seconds'', JInt (cur + n))])\<rparr>)"
  proof (rule load_seconds_int)
    show "0 \<le> cur + n" using assms l by simp
    show "float_of_int (cur + n) = Inr (Finite (of_int (cur + n)))"
      using assms l by simp
    show "study_file (d1\<lparr>study_file := Json (JObj [(''total_seconds'', JInt (cur + n))])\<rparr>)
            = Json (JObj [(''total_seconds'', JInt (cur + n))])" by simp
    show "map_of [(''total_seconds'', JInt (cur + n))] ''total_seconds'' = Some (JInt (cur + n))"
      by simp
  qed
  then show ?thesis using a s l by simp
qed


lemma trunc_nonneg: "0 \<le> q \<Longrightarrow> 0 \<le> trunc q"
  by (simp add: trunc_def)

lemma add_to_seconds:
  assumes "study_file d = Json (JObj [(''total_seconds'', JInt c)])" "wmode d = WriteOk"
    "0 \<le> c" "c \<le> 2 ^ 53" "0 \<le> c + n" "c + n \<le> 2 ^ 53"
  shows "snd (add_study_time rt n d) =
           d\<lparr>study_file := Json (JObj [(''total_seconds'', JInt (c + n))])\<rparr>"
proof -
  have "float_of_int c = Inr (Finite (of_int c))"
    using assms by (intro float_of_int_exact) simp
  moreover have "map_of [(''total_seconds'', JInt c)] ''total_seconds'' = Some (JInt c)"
    by simp
  ultimately have l: "load_study_time rt d = (c, d)"
    using load_seconds_int[OF assms(3) _ assms(1)] by blast
  have "float_of_int (c + n) = Inr (Finite (of_int (c + n)))"
    using assms by (intro float_of_int_exact) simp
  then have "save_study_time (c + n) d =
               d\<lparr>study_file := Json (JObj [(''total_seconds'', JInt (c + n))])\<rparr>"
    using assms by (intro save_exact) simp_all
  then show ?thesis using l by (simp add: add_study_time_def Let_def)
qed

lemma trunc_sample_eval:
  "trunc (61 / 2) = 30" "trunc (123 / 2) = 61" "trunc (5 / 2) = 2" "trunc (3 / 2) = 1"
  "trunc (9 / 10) = 0"
  by code_simp+

section \<open>The timer and the running flag\<close>

text \<open>In every state that a run reaches from a new engine, the timer is active exactly
  when \<open>is_running\<close> is set.\<close>

lemma start_timer_inv:
  "timer_active s = is_running s \<Longrightarrow> timer_active (start cfg now s) = is_running (start cfg now s)"
  by (simp add: start_def Let_def)

lemma pause_timer_inv:
  "timer_active s = is_running s \<Longrightarrow>
     timer_active (fst (pause rt now s w)) = is_running (fst (pause rt now s w))"
  by (simp add: pause_def Let_def split: option.splits)

lemma save_timer_inv:
  "timer_active s = is_running s \<Longrightarrow>
     timer_active (fst (save_current_session rt now s w))
       = is_running (fst (save_current_session rt now s w))"
  by (simp add: save_current_session_def Let_def split: option.splits)

lemma reset_timer_inv:
  "timer_active s = is_running s \<Longrightarrow>
     timer_active (fst (reset rt cfg now s w)) = is_running (fst (reset rt cfg now s w))"
  by (simp add: reset_def Let_def split_beta pause_timer_inv split: option.splits)

lemma switch_timer_inv:
  "timer_active s = is_running s \<Longrightarrow>
     timer_active (fst (switch_phase rt cfg now p s w))
       = is_running (fst (switch_phase rt cfg now p s w))"
  by (simp add: switch_phase_def Let_def split_beta split: option.splits)

lemma tick_timer_inv:
  "timer_active s = is_running s \<Longrightarrow> tick rt cfg now s w = Inr (s', w') \<Longrightarrow>
     timer_active s' = is_running s'"
  using tick_frame[where rt = rt and cfg = cfg and now = now and s = s and w = w] by simp

lemma step_timer_inv:
  assumes "timer_active s = is_running s" "step rt cfg x (s, w) = Inr (s', w')"
  shows "timer_active s' = is_running s'"
proof (cases "fst x")
  case Start
  then show ?thesis using assms start_timer_inv[of s cfg "snd x"] by (auto simp: step_def)
next
  case Pause
  then show ?thesis using assms pause_timer_inv[of s rt "snd x" w] by (auto simp: step_def)
next
  case Reset
  then show ?thesis using assms reset_timer_inv[of s rt cfg "snd x" w] by (auto simp: step_def)
next
  case (SwitchPhase p)
  then show ?thesis using assms switch_timer_inv[of s rt cfg "snd x" p w]
    by (auto simp: step_def)
next
  case (AttachTask i)
  then show ?thesis using assms by (auto simp: step_def attach_task_def)
next
  case SaveSession
  then show ?thesis using assms save_timer_inv[of s rt "snd x" w] by (auto simp: step_def)
next
  case Timeout
  then show ?thesis using assms tick_timer_inv[of s rt cfg "snd x" w s' w']
    by (auto simp: step_def split: if_splits)
qed

lemma run_timer_inv:
  "timer_active (fst sw) = is_running (fst sw) \<Longrightarrow> run rt cfg ops sw = Inr sw' \<Longrightarrow>
     timer_active (fst sw') = is_running (fst sw')"
proof (induction ops arbitrary: sw)
  case Nil
  then show ?case by simp
next
  case (Cons x xs)
  then obtain sw1 where st: "step rt cfg x sw = Inr sw1" and r: "run rt cfg xs sw1 = Inr sw'"
    by (auto split: sum.splits)
  from step_timer_inv[of "fst sw" rt cfg x "snd sw" "fst sw1" "snd sw1"] Cons.prems(1) st
  have "timer_active (fst sw1) = is_running (fst sw1)" by simp
  from Cons.IH[OF this r] show ?case .
qed

lemma reachable_timer_inv:
  "run rt cfg ops (new_manager cfg0 a b c, w) = Inr (s', w') \<Longrightarrow> timer_active s' = is_running s'"
  using run_timer_inv[of "(new_manager cfg0 a b c, w)" rt cfg ops "(s', w')"]
  by (simp add: new_manager_def)



section \<open>Reset\<close>

lemma reset_core:
  "phase (fst (reset rt cfg now s w)) = Focus
   \<and> remaining (fst (reset rt cfg now s w)) = focus_secs cfg
   \<and> \<not> is_running (fst (reset rt cfg now s w))
   \<and> (timer_active s = is_running s \<longrightarrow> \<not> timer_active (fst (reset rt cfg now s w)))
   \<and> attached_task_id (fst (reset rt cfg now s w)) = attached_task_id s
   \<and> events (fst (reset rt cfg now s w)) =
       events s @ (if has_on_phase_change s then [PhaseChange Focus (focus_secs cfg)] else [])
   \<and> (phase s = Focus \<longrightarrow> session_start_time (fst (reset rt cfg now s w)) = None)
   \<and> (let p = (case session_start_time s of
                  Some t0 \<Rightarrow>
                    if phase s = Focus
                    then float_add rt (total_session_time s) (td_total_seconds rt (now - t0))
                    else total_session_time s
                | None \<Rightarrow> total_session_time s)
      in if 0 < p
         then total_session_time (fst (reset rt cfg now s w)) = 0
            \<and> snd (reset rt cfg now s w) =
                w\<lparr>study := snd (add_study_time rt (trunc p) (study w))\<rparr>
         else total_session_time (fst (reset rt cfg now s w)) = p
            \<and> snd (reset rt cfg now s w) = w)"
  by (cases "session_start_time s")
     (auto simp: reset_def pause_def Let_def notify_phase_change_def)

lemma flush_counter:
  assumes "0 < p" "wmode d = WriteOk"
    "float_of_int (fst (load_study_time rt d) + trunc p)
       = Inr (Finite (of_int (fst (load_study_time rt d) + trunc p)))"
  shows "study_file (snd (add_study_time rt (trunc p) d))
           = Json (JObj [(''total_seconds'', JInt (fst (load_study_time rt d) + trunc p))])
       \<and> fst (load_study_time rt (snd (add_study_time rt (trunc p) d)))
           = fst (load_study_time rt d) + trunc p"
proof -
  have "0 \<le> trunc p" using assms(1) by (simp add: trunc_nonneg)
  then have "0 \<le> fst (load_study_time rt d) + trunc p"
    using load_nonneg[of rt d] by simp
  from add_study_time_effect[OF assms(2) this assms(3)] show ?thesis by simp
qed

text \<open>
  C8 (as amended).  In every engine state, \<^verbatim>\<open>reset()\<close> leaves the phase Focus with the full
  configured focus duration, the engine not running, and the attached task as it was; it
  sends the phase change to the observer, if there is one; and it flushes as \<^verbatim>\<open>pause\<close>
  does: an open Focus window is closed, its elapsed time is added to the pending time \<open>p\<close>,
  and a positive \<open>p\<close> is handed to \<^verbatim>\<open>add_study_time\<close> as \<open>trunc p\<close> and then set to zero.
  When the counter file can be written and the old total \<open>c\<close> plus \<open>trunc p\<close> is exactly a
  double, the file then holds \<open>c + trunc p\<close> seconds, and that is what the next load
  returns.  The timer is stopped in every state in which it is active only while
  \<open>is_running\<close> is set, which are all the states an engine can reach
  (\<open>reachable_timer_inv\<close>).
\<close>

theorem reset_effect:
  "phase (fst (reset rt cfg now s w)) = Focus
   \<and> remaining (fst (reset rt cfg now s w)) = focus_secs cfg
   \<and> \<not> is_running (fst (reset rt cfg now s w))
   \<and> (timer_active s = is_running s \<longrightarrow> \<not> timer_active (fst (reset rt cfg now s w)))
   \<and> attached_task_id (fst (reset rt cfg now s w)) = attached_task_id s
   \<and> events (fst (reset rt cfg now s w)) =
       events s @ (if has_on_phase_change s then [PhaseChange Focus (focus_secs cfg)] else [])
   \<and> (phase s = Focus \<longrightarrow> session_start_time (fst (reset rt cfg now s w)) = None)
   \<and> (let p = (case session_start_time s of
                  Some t0 \<Rightarrow>
                    if phase s = Focus
                    then float_add rt (total_session_time s) (td_total_seconds rt (now - t0))
                    else total_session_time s
                | None \<Rightarrow> total_session_time s);
          c = fst (load_study_time rt (study w))
      in if 0 < p
         then total_session_time (fst (reset rt cfg now s w)) = 0
            \<and> snd (reset rt cfg now s w) =
                w\<lparr>study := snd (add_study_time rt (trunc p) (study w))\<rparr>
            \<and> (wmode (study w) = WriteOk
                  \<and> float_of_int (c + trunc p) = Inr (Finite (of_int (c + trunc p)))
                \<longrightarrow> study_file (study (snd (reset rt cfg now s w)))
                      = Json (JObj [(''total_seconds'', JInt (c + trunc p))])
                    \<and> fst (load_study_time rt (study (snd (reset rt cfg now s w))))
                      = c + trunc p)
         else total_session_time (fst (reset rt cfg now s w)) = p
            \<and> snd (reset rt cfg now s w) = w)"
  using reset_core[of rt cfg now s w]
  by (auto simp: Let_def flush_counter)


lemma world_100_load: "load_study_time rt (study world_100) = (100, study world_100)"
proof (rule load_seconds_int)
  show "float_of_int 100 = Inr (Finite (of_int 100))" by (rule float_of_int_exact) simp
  show "study_file (study world_100) = Json (JObj [(''total_seconds'', JInt 100)])"
    by (simp add: world_100_def)
  show "map_of [(''total_seconds'', JInt 100)] ''total_seconds'' = Some (JInt 100)" by simp
qed simp

lemma world_100_add:
  assumes "0 \<le> n" "n \<le> 1000"
  shows "snd (add_study_time rt n (study world_100)) =
           \<lparr>study_file = Json (JObj [(''total_seconds'', JInt (100 + n))]), wmode = WriteOk\<rparr>"
proof -
  have "snd (add_study_time rt n (study world_100)) =
          (study world_100)\<lparr>study_file := Json (JObj [(''total_seconds'', JInt (100 + n))])\<rparr>"
    using assms by (intro add_to_seconds) (simp_all add: world_100_def)
  then show ?thesis by (simp add: world_100_def)
qed

lemma load_seconds_literal:
  assumes "0 \<le> c" "c \<le> 2 ^ 53"
  shows "load_study_time rt \<lparr>study_file = Json (JObj [(''total_seconds'', JInt c)]), wmode = m\<rparr>
           = (c, \<lparr>study_file = Json (JObj [(''total_seconds'', JInt c)]), wmode = m\<rparr>)"
proof (rule load_seconds_int)
  show "float_of_int c = Inr (Finite (of_int c))" using assms by (intro float_of_int_exact) simp
  show "map_of [(''total_seconds'', JInt c)] ''total_seconds'' = Some (JInt c)" by simp
qed (simp_all add: assms)

lemma small_exact:
  "float_of_int 130 = Inr (Finite 130)" "float_of_int 161 = Inr (Finite 161)"
  "float_of_int 102 = Inr (Finite 102)"
  using float_of_int_exact[of 130] float_of_int_exact[of 161] float_of_int_exact[of 102]
  by simp_all

theorem reset_effect_witness:
  "phase (fst (reset rt_sample cfg_short 63839696430500000
                 (focus_due\<lparr>remaining := 30, attached_task_id := Some 1\<rparr>) world_100)) = Focus
   \<and> remaining (fst (reset rt_sample cfg_short 63839696430500000
                 (focus_due\<lparr>remaining := 30, attached_task_id := Some 1\<rparr>) world_100)) = 60
   \<and> \<not> is_running (fst (reset rt_sample cfg_short 63839696430500000
                 (focus_due\<lparr>remaining := 30, attached_task_id := Some 1\<rparr>) world_100))
   \<and> \<not> timer_active (fst (reset rt_sample cfg_short 63839696430500000
                 (focus_due\<lparr>remaining := 30, attached_task_id := Some 1\<rparr>) world_100))
   \<and> attached_task_id (fst (reset rt_sample cfg_short 63839696430500000
                 (focus_due\<lparr>remaining := 30, attached_task_id := Some 1\<rparr>) world_100)) = Some 1
   \<and> session_start_time (fst (reset rt_sample cfg_short 63839696430500000
                 (focus_due\<lparr>remaining := 30, attached_task_id := Some 1\<rparr>) world_100)) = None
   \<and> events (fst (reset rt_sample cfg_short 63839696430500000
                 (focus_due\<lparr>remaining := 30, attached_task_id := Some 1\<rparr>) world_100))
       = [PhaseChange Focus 60]
   \<and> total_session_time (fst (reset rt_sample cfg_short 63839696430500000
                 (focus_due\<lparr>remaining := 30, attached_task_id := Some 1\<rparr>) world_100)) = 0
   \<and> study_file (study (snd (reset rt_sample cfg_short 63839696430500000
                 (focus_due\<lparr>remaining := 30, attached_task_id := Some 1\<rparr>) world_100)))
       = Json (JObj [(''total_seconds'', JInt 130)])
   \<and> fst (load_study_time rt_sample (study world_100)) = 100
   \<and> fst (load_study_time rt_sample (study (snd (reset rt_sample cfg_short 63839696430500000
                 (focus_due\<lparr>remaining := 30, attached_task_id := Some 1\<rparr>) world_100))))
       = 130"
proof -
  have w: "wmode (study world_100) = WriteOk" by (simp add: world_100_def)
  show ?thesis
    using reset_effect[of rt_sample cfg_short 63839696430500000
      "focus_due\<lparr>remaining := 30, attached_task_id := Some 1\<rparr>" world_100]
    by (simp add: Let_def focus_due_def new_manager_def cfg_short_def set_from_minutes_def
        rt_sample_def w world_100_load world_100_add load_seconds_literal trunc_sample_eval
        small_exact)
qed

text \<open>
  That the window is flushed to the counter in every state fails where the write fails or
  the new total is not a double: a window of 30.5 seconds leaves a counter of 100 that
  cannot be written at 100, and a window of 1.5 seconds leaves a counter of \<open>2 ^ 53\<close> as it
  is.
\<close>

theorem reset_effect_counterexample:
  "fst (load_study_time rt_sample (study world_readonly)) = 100
   \<and> fst (load_study_time rt_sample (study (snd (reset rt_sample cfg_short 63839696430500000
                 (focus_due\<lparr>remaining := 30\<rparr>) world_readonly)))) = 100
   \<and> fst (load_study_time rt_sample (study world_full)) = 9007199254740992
   \<and> fst (load_study_time rt_sample (study (snd (reset rt_sample cfg_short 63839696401500000
                 (focus_due\<lparr>remaining := 30\<rparr>) world_full)))) = 9007199254740992"
  by code_simp


section \<open>Flushing accrued time\<close>
















end
